theory Spec2Isabelle
  imports Main "HOL-Library.Word"
begin

section \<open>Engine/Type.cpp: type registration and reference count proxies\<close>

text \<open>
  A shallow embedding of \<^verbatim>\<open>src/Engine/Type.cpp\<close>. Pointers are natural numbers,
  a nullable pointer is an \<open>option\<close> (\<open>None\<close> is \<^verbatim>\<open>NULL\<close>), the static members of
  the classes are the fields of an explicit state, and every function returns a
  value of \<open>fault + 'a\<close>: \<open>Inl\<close> when the call does not return normally.
\<close>

subsection \<open>Faults\<close>

text \<open>
  Modelled from the spec: the macros \<^verbatim>\<open>HELIUM_ASSERT\<close> and \<^verbatim>\<open>HELIUM_VERIFY\<close>, whose
  definitions are not under src/. The spec calls them fatal assertions that
  terminate or trap, so a failed one ends the call with \<open>AssertionFailed\<close>, carrying
  the text of the asserted expression. \<^verbatim>\<open>HELIUM_VERIFY\<close> evaluates its argument for
  its effect and then asserts the result. Reading through a pointer that does not
  address an object is \<open>InvalidPointer\<close>.
\<close>

datatype fault = AssertionFailed string | InvalidPointer

type_synonym name = string
type_synonym type_ptr = nat
type_synonym gobj_ptr = nat
type_synonym pkg_ptr = nat
type_synonym proxy_ptr = nat

subsection \<open>Type descriptors\<close>

text \<open>
  The data members of \<^verbatim>\<open>Type\<close> that Type.cpp assigns. \<^verbatim>\<open>TypePtr\<close> and
  \<^verbatim>\<open>GameObjectPtr\<close> are nullable references; their \<^verbatim>\<open>Release()\<close> makes them null.
  Their reference counts, and the destruction of an object that nothing refers to
  any more, are not modelled: a descriptor, once created, stays in the heap.
  The descriptors live in a heap: a list, the address of a descriptor being its
  index, so that \<^verbatim>\<open>new Type\<close> yields the address \<open>length heap\<close>, never one in use.
\<close>

record Type =
  m_name :: name
  m_spTypeParent :: "type_ptr option"
  m_spTypeTemplate :: "gobj_ptr option"
  m_typeFlags :: "32 word"

type_synonym type_heap = "Type list"

definition deref :: "type_heap \<Rightarrow> type_ptr \<Rightarrow> Type option" where
  "deref h p = (if p < length h then Some (h ! p) else None)"

text \<open>
  \<^verbatim>\<open>Type::IsSubtypeOf\<close>. The loop
  \<^verbatim>\<open>for( pThisType = this; pThisType != NULL; pThisType = pThisType->GetTypeParent() )\<close>
  follows parent links and need not end when they form a cycle, so it is a partial
  function: \<open>None\<close> is a walk that never returns.
\<close>

partial_function (option) IsSubtypeOf_loop ::
  "type_heap \<Rightarrow> type_ptr option \<Rightarrow> type_ptr \<Rightarrow> (fault + bool) option" where
  "IsSubtypeOf_loop h pThisType pType =
     (case pThisType of
        None \<Rightarrow> Some (Inr False)
      | Some a \<Rightarrow>
          if a = pType then Some (Inr True)
          else (case deref h a of
                  None \<Rightarrow> Some (Inl InvalidPointer)
                | Some T \<Rightarrow> IsSubtypeOf_loop h (m_spTypeParent T) pType))"

declare IsSubtypeOf_loop.simps [code]

definition Type_IsSubtypeOf ::
  "type_heap \<Rightarrow> type_ptr \<Rightarrow> type_ptr option \<Rightarrow> (fault + bool) option" where
  "Type_IsSubtypeOf h this pType =
     (case pType of
        None \<Rightarrow> Some (Inl (AssertionFailed ''pType''))
      | Some t \<Rightarrow> IsSubtypeOf_loop h (Some this) t)"

text \<open>
  \<open>parent_chain h p xs\<close>: starting at the nullable pointer \<open>p\<close>, the parent links of
  \<open>h\<close> visit exactly the descriptors \<open>xs\<close>, in this order, and then reach the null
  parent of a root. Such a chain is finite, hence free of cycles.
\<close>

fun parent_chain :: "type_heap \<Rightarrow> type_ptr option \<Rightarrow> type_ptr list \<Rightarrow> bool" where
  "parent_chain h p [] = (p = None)"
| "parent_chain h p (a # as) =
     (p = Some a \<and>
      (case deref h a of None \<Rightarrow> False | Some T \<Rightarrow> parent_chain h (m_spTypeParent T) as))"

text \<open>
  The heap of the spec's end-to-end scenario: ``Object'' at address 0 with no
  parent, ``Actor'' at 1 with parent 0, ``Player'' at 2 with parent 1.
\<close>

definition scenario_heap :: type_heap where
  "scenario_heap =
     [\<lparr>m_name = ''Object'', m_spTypeParent = None, m_spTypeTemplate = Some 0, m_typeFlags = 0\<rparr>,
      \<lparr>m_name = ''Actor'', m_spTypeParent = Some 0, m_spTypeTemplate = Some 1, m_typeFlags = 0\<rparr>,
      \<lparr>m_name = ''Player'', m_spTypeParent = Some 1, m_spTypeTemplate = Some 2, m_typeFlags = 0\<rparr>]"

subsection \<open>The proxy store\<close>

text \<open>
  Modelled from the spec: \<^verbatim>\<open>ObjectPool\<close> (Foundation/Container/ObjectPool.h is not
  under src/). The spec describes a pool of cells grown in blocks of a fixed size,
  whose \<^verbatim>\<open>Allocate\<close> hands out a cell, growing the pool by one block if exhausted,
  and whose \<^verbatim>\<open>Release\<close> takes a cell back. A cell is its index in the pool:
  \<open>pool_capacity\<close> cells are reserved, those below \<open>pool_next\<close> have been carved out
  of the blocks, and \<open>pool_free\<close> holds the cells that were given back.
\<close>

record ObjectPool =
  pool_blockSize :: nat
  pool_capacity :: nat
  pool_next :: nat
  pool_free :: "proxy_ptr list"

definition ObjectPool_new :: "nat \<Rightarrow> ObjectPool" where
  "ObjectPool_new blockSize =
     \<lparr>pool_blockSize = blockSize, pool_capacity = 0, pool_next = 0, pool_free = []\<rparr>"

definition ObjectPool_Allocate :: "ObjectPool \<Rightarrow> proxy_ptr option \<times> ObjectPool" where
  "ObjectPool_Allocate P =
     (case pool_free P of
        p # ps \<Rightarrow> (Some p, P\<lparr>pool_free := ps\<rparr>)
      | [] \<Rightarrow>
          let P' = (if pool_next P < pool_capacity P then P
                    else P\<lparr>pool_capacity := pool_capacity P + pool_blockSize P\<rparr>)
          in (Some (pool_next P'), P'\<lparr>pool_next := Suc (pool_next P')\<rparr>))"

definition ObjectPool_Release :: "ObjectPool \<Rightarrow> proxy_ptr \<Rightarrow> ObjectPool" where
  "ObjectPool_Release P p = P\<lparr>pool_free := p # pool_free P\<rparr>"

text \<open>
  Modelled from the spec: \<^verbatim>\<open>ConcurrentHashSet\<close> (not under src/), the live set of
  the spec. \<^verbatim>\<open>Insert\<close> and \<^verbatim>\<open>Remove\<close> report whether they changed the set, which is
  what Type.cpp verifies.
\<close>

definition HashSet_Insert :: "'a set \<Rightarrow> 'a \<Rightarrow> bool \<times> 'a set" where
  "HashSet_Insert A x = (x \<notin> A, insert x A)"

definition HashSet_Remove :: "'a set \<Rightarrow> 'a \<Rightarrow> bool \<times> 'a set" where
  "HashSet_Remove A x = (x \<in> A, A - {x})"

text \<open>
  \<^verbatim>\<open>TypeRefCountSupport::StaticData\<close>. The field \<open>activeProxySet\<close> exists only when
  \<^verbatim>\<open>HELIUM_ENABLE_MEMORY_TRACKING\<close> is set; the functions below take that setting as
  their first argument and leave the field alone when it is off. The state of the
  store is the static pointer \<^verbatim>\<open>sm_pStaticData\<close>, a \<open>StaticData option\<close>.
  \<^verbatim>\<open>new StaticData\<close> always yields an object, so the assertion on it has no branch.
\<close>

record StaticData =
  proxyPool :: ObjectPool
  activeProxySet :: "proxy_ptr set"

definition POOL_BLOCK_SIZE :: nat where
  "POOL_BLOCK_SIZE = 1024"

definition StaticData_new :: StaticData where
  "StaticData_new = \<lparr>proxyPool = ObjectPool_new POOL_BLOCK_SIZE, activeProxySet = {}\<rparr>"

definition TypeRefCountSupport_Allocate ::
  "bool \<Rightarrow> StaticData option \<Rightarrow> fault + (proxy_ptr \<times> StaticData option)" where
  "TypeRefCountSupport_Allocate memory_tracking sm_pStaticData =
     (let pStaticData = (case sm_pStaticData of None \<Rightarrow> StaticData_new | Some d \<Rightarrow> d);
          (pProxy, pool') = ObjectPool_Allocate (proxyPool pStaticData)
      in case pProxy of
           None \<Rightarrow> Inl (AssertionFailed ''pProxy'')
         | Some p \<Rightarrow>
             if memory_tracking then
               (let (inserted, A') = HashSet_Insert (activeProxySet pStaticData) p
                in if inserted
                   then Inr (p, Some (pStaticData\<lparr>proxyPool := pool', activeProxySet := A'\<rparr>))
                   else Inl (AssertionFailed ''activeProxySet.Insert''))
             else Inr (p, Some (pStaticData\<lparr>proxyPool := pool'\<rparr>)))"

definition TypeRefCountSupport_Release ::
  "bool \<Rightarrow> proxy_ptr option \<Rightarrow> StaticData option \<Rightarrow> fault + StaticData option" where
  "TypeRefCountSupport_Release memory_tracking pProxy sm_pStaticData =
     (case pProxy of
        None \<Rightarrow> Inl (AssertionFailed ''pProxy'')
      | Some p \<Rightarrow>
          (case sm_pStaticData of
             None \<Rightarrow> Inl (AssertionFailed ''pStaticData'')
           | Some d \<Rightarrow>
               if memory_tracking then
                 (let (removed, A') = HashSet_Remove (activeProxySet d) p
                  in if removed
                     then Inr (Some (d\<lparr>proxyPool := ObjectPool_Release (proxyPool d) p,
                                       activeProxySet := A'\<rparr>))
                     else Inl (AssertionFailed ''activeProxySet.Remove''))
               else Inr (Some (d\<lparr>proxyPool := ObjectPool_Release (proxyPool d) p\<rparr>))))"

definition TypeRefCountSupport_Shutdown :: "StaticData option \<Rightarrow> StaticData option" where
  "TypeRefCountSupport_Shutdown sm_pStaticData = None"

text \<open>The two diagnostic queries, compiled only with memory tracking.\<close>

definition TypeRefCountSupport_GetActiveProxyCount :: "StaticData option \<Rightarrow> fault + nat" where
  "TypeRefCountSupport_GetActiveProxyCount sm_pStaticData =
     (case sm_pStaticData of
        None \<Rightarrow> Inl (AssertionFailed ''sm_pStaticData'')
      | Some d \<Rightarrow> Inr (card (activeProxySet d)))"

text \<open>
  \<^verbatim>\<open>GetFirstActiveProxy\<close> returns whether the accessor was set to a first element;
  which element that is depends on the hash order and is not modelled.
\<close>

definition TypeRefCountSupport_GetFirstActiveProxy :: "StaticData option \<Rightarrow> fault + bool" where
  "TypeRefCountSupport_GetFirstActiveProxy sm_pStaticData =
     (case sm_pStaticData of
        None \<Rightarrow> Inl (AssertionFailed ''sm_pStaticData'')
      | Some d \<Rightarrow> Inr (activeProxySet d \<noteq> {}))"

text \<open>
  Sequences of calls to the store. A run stops at the first fault; a run that
  returns also yields its history: which cell each \<^verbatim>\<open>Allocate\<close> issued and which
  cell each \<^verbatim>\<open>Release\<close> took back.
\<close>

datatype proxy_op = OpAllocate | OpRelease "proxy_ptr option"

datatype proxy_event = Issued proxy_ptr | Returned "proxy_ptr option"

fun run_proxy_ops ::
  "bool \<Rightarrow> proxy_op list \<Rightarrow> StaticData option \<Rightarrow> fault + (StaticData option \<times> proxy_event list)" where
  "run_proxy_ops mt [] sm = Inr (sm, [])"
| "run_proxy_ops mt (OpAllocate # ops) sm =
     (case TypeRefCountSupport_Allocate mt sm of
        Inl e \<Rightarrow> Inl e
      | Inr (p, sm') \<Rightarrow>
          (case run_proxy_ops mt ops sm' of
             Inl e \<Rightarrow> Inl e
           | Inr (sm'', evs) \<Rightarrow> Inr (sm'', Issued p # evs)))"
| "run_proxy_ops mt (OpRelease pp # ops) sm =
     (case TypeRefCountSupport_Release mt pp sm of
        Inl e \<Rightarrow> Inl e
      | Inr sm' \<Rightarrow>
          (case run_proxy_ops mt ops sm' of
             Inl e \<Rightarrow> Inl e
           | Inr (sm'', evs) \<Rightarrow> Inr (sm'', Returned pp # evs)))"

text \<open>
  What a history says: the cells issued and not given back since, starting from
  the cells \<open>A\<close>; the number of cells issued; the number given back.
\<close>

fun live_after :: "proxy_event list \<Rightarrow> proxy_ptr set \<Rightarrow> proxy_ptr set" where
  "live_after [] A = A"
| "live_after (Issued p # evs) A = live_after evs (insert p A)"
| "live_after (Returned pp # evs) A =
     live_after evs (case pp of None \<Rightarrow> A | Some p \<Rightarrow> A - {p})"

fun issued :: "proxy_event list \<Rightarrow> nat" where
  "issued [] = 0"
| "issued (Issued p # evs) = Suc (issued evs)"
| "issued (Returned pp # evs) = issued evs"

fun released :: "proxy_event list \<Rightarrow> nat" where
  "released [] = 0"
| "released (Issued p # evs) = released evs"
| "released (Returned pp # evs) = Suc (released evs)"

definition active_set :: "StaticData option \<Rightarrow> proxy_ptr set" where
  "active_set sm = (case sm of None \<Rightarrow> {} | Some d \<Rightarrow> activeProxySet d)"

text \<open>
  Consistency of the pool with the live set: the free cells are pairwise different
  and not live, and every free or live cell has been carved out of a reserved block.
\<close>

definition store_consistent :: "StaticData option \<Rightarrow> bool" where
  "store_consistent sm =
     (case sm of
        None \<Rightarrow> True
      | Some d \<Rightarrow>
          distinct (pool_free (proxyPool d)) \<and>
          set (pool_free (proxyPool d)) \<inter> activeProxySet d = {} \<and>
          set (pool_free (proxyPool d)) \<union> activeProxySet d \<subseteq> {..<pool_next (proxyPool d)})"

subsection \<open>The type registry\<close>

text \<open>
  \<^verbatim>\<open>Type::LookupMap\<close> maps a name to a \<^verbatim>\<open>TypePtr\<close>, which may be null. Its \<^verbatim>\<open>Insert\<close>
  adds an entry unless the key is present and \<^verbatim>\<open>Remove\<close> deletes the entry of a
  key; both report whether they changed the map, which is what Type.cpp verifies.
\<close>

type_synonym LookupMap = "name \<rightharpoonup> type_ptr option"

definition LookupMap_Insert :: "LookupMap \<Rightarrow> name \<Rightarrow> type_ptr option \<Rightarrow> bool \<times> LookupMap" where
  "LookupMap_Insert M k v = (if M k = None then (True, M(k \<mapsto> v)) else (False, M))"

definition LookupMap_Remove :: "LookupMap \<Rightarrow> name \<Rightarrow> bool \<times> LookupMap" where
  "LookupMap_Remove M k = (M k \<noteq> None, M(k := None))"

text \<open>
  \<^verbatim>\<open>GameObject\<close> is not under src/. \<^verbatim>\<open>Type::Create\<close> calls four of its operations on
  the template object; they are parameters of the model, acting on a state \<open>'o\<close> of
  the object system that the registry does not look into. \<^verbatim>\<open>SetOwner\<close>, \<^verbatim>\<open>SetName\<close>
  and \<^verbatim>\<open>RegisterObject\<close> report success; the value of \<^verbatim>\<open>FLAG_DEFAULT_TEMPLATE\<close> is a
  parameter as well.
\<close>

record 'o object_system =
  SetOwner :: "gobj_ptr \<Rightarrow> pkg_ptr \<Rightarrow> 'o \<Rightarrow> bool \<times> 'o"
  SetName :: "gobj_ptr \<Rightarrow> name \<Rightarrow> 'o \<Rightarrow> bool \<times> 'o"
  SetFlags :: "gobj_ptr \<Rightarrow> 32 word \<Rightarrow> 'o \<Rightarrow> 'o"
  FLAG_DEFAULT_TEMPLATE :: "32 word"
  RegisterObject :: "gobj_ptr \<Rightarrow> 'o \<Rightarrow> bool \<times> 'o"

datatype trace_level = TRACE_INFO | TRACE_ERROR

text \<open>
  The state: the object system, the heap of descriptors, the static members
  \<^verbatim>\<open>sm_pLookupMap\<close> and \<^verbatim>\<open>sm_spTypePackage\<close> of \<^verbatim>\<open>Type\<close>, the static type of
  \<^verbatim>\<open>GameObject\<close> (see \<open>GameObject_ReleaseStaticType\<close>), and what \<^verbatim>\<open>HELIUM_TRACE\<close> has
  written.
\<close>

record 'o registry =
  objs :: 'o
  type_objects :: type_heap
  sm_pLookupMap :: "LookupMap option"
  sm_spTypePackage :: "pkg_ptr option"
  GameObject_sm_spStaticType :: "type_ptr option"
  trace_log :: "(trace_level \<times> string) list"

definition HELIUM_TRACE :: "trace_level \<Rightarrow> string \<Rightarrow> 'o registry \<Rightarrow> 'o registry" where
  "HELIUM_TRACE level msg s = s\<lparr>trace_log := trace_log s @ [(level, msg)]\<rparr>"

text \<open>The format strings of \<^verbatim>\<open>Type::Create\<close>, with the name in place of \<^verbatim>\<open>%s\<close>.\<close>

definition quoted :: "string \<Rightarrow> string" where
  "quoted str = CHR 0x22 # str @ [CHR 0x22]"

definition msg_owner :: "name \<Rightarrow> string" where
  "msg_owner n = ''Type::Initialize(): Failed to set type '' @ quoted n @
     '' template object owner.'' @ [CHR 0x0A]"

definition msg_name :: "name \<Rightarrow> string" where
  "msg_name n = ''Type::Initialize(): Failed to set type '' @ quoted n @
     '' template object name.'' @ [CHR 0x0A]"

definition msg_register :: "name \<Rightarrow> string" where
  "msg_register n = ''Type::Initialize(): Failed to register type '' @ quoted n @
     '' template object.'' @ [CHR 0x0A]"

definition Type_SetTypePackage :: "pkg_ptr option \<Rightarrow> 'o registry \<Rightarrow> fault + 'o registry" where
  "Type_SetTypePackage pPackage s =
     (case pPackage of
        None \<Rightarrow> Inl (AssertionFailed ''pPackage'')
      | Some pkg \<Rightarrow>
          if sm_spTypePackage s \<noteq> None then Inl (AssertionFailed ''!sm_spTypePackage'')
          else Inr (s\<lparr>sm_spTypePackage := Some pkg\<rparr>))"

text \<open>
  \<^verbatim>\<open>Type::Create\<close>. The result is the returned pointer (\<open>None\<close> for the null that
  \<^verbatim>\<open>return false\<close> converts to) and the state the call leaves. \<^verbatim>\<open>new\<close> always
  yields an object here, so the assertions on \<^verbatim>\<open>pType\<close> and on the new
  \<^verbatim>\<open>sm_pLookupMap\<close> hold and have no branch; a map created lazily is empty.
\<close>

definition Type_Create ::
  "'o object_system \<Rightarrow> name \<Rightarrow> pkg_ptr option \<Rightarrow> type_ptr option \<Rightarrow> gobj_ptr option \<Rightarrow>
   32 word \<Rightarrow> 'o registry \<Rightarrow> fault + (type_ptr option \<times> 'o registry)" where
  "Type_Create osys name pTypePackage pParent pTemplate flags s =
     (if name = [] then Inl (AssertionFailed ''!name.IsEmpty()'')
      else case pTypePackage of
        None \<Rightarrow> Inl (AssertionFailed ''pTypePackage'')
      | Some pkg \<Rightarrow>
      (case pTemplate of
        None \<Rightarrow> Inl (AssertionFailed ''pTemplate'')
      | Some tmpl \<Rightarrow>
      (let (owned, o1) = SetOwner osys tmpl pkg (objs s) in
       if \<not> owned
       then Inr (None, HELIUM_TRACE TRACE_ERROR (msg_owner name) (s\<lparr>objs := o1\<rparr>))
       else
      (let (named, o2) = SetName osys tmpl name o1 in
       if \<not> named
       then Inr (None, HELIUM_TRACE TRACE_ERROR (msg_name name) (s\<lparr>objs := o2\<rparr>))
       else
      (let o3 = SetFlags osys tmpl (FLAG_DEFAULT_TEMPLATE osys) o2;
           (registered, o4) = RegisterObject osys tmpl o3 in
       if \<not> registered
       then Inr (None, HELIUM_TRACE TRACE_ERROR (msg_register name) (s\<lparr>objs := o4\<rparr>))
       else
      (let pType = length (type_objects s);
           heap' = type_objects s @
             [\<lparr>m_name = name, m_spTypeParent = pParent, m_spTypeTemplate = Some tmpl,
               m_typeFlags = flags\<rparr>];
           lookupMap = (case sm_pLookupMap s of None \<Rightarrow> Map.empty | Some M \<Rightarrow> M);
           (inserted, lookupMap') = LookupMap_Insert lookupMap name (Some pType)
       in if \<not> inserted then Inl (AssertionFailed ''sm_pLookupMap->Insert'')
          else Inr (Some pType,
                    s\<lparr>objs := o4, type_objects := heap',
                      sm_pLookupMap := Some lookupMap'\<rparr>)))))))"

definition Type_Unregister :: "type_ptr option \<Rightarrow> 'o registry \<Rightarrow> fault + 'o registry" where
  "Type_Unregister pType s =
     (case pType of
        None \<Rightarrow> Inl (AssertionFailed ''pType'')
      | Some p \<Rightarrow>
      (case sm_pLookupMap s of
        None \<Rightarrow> Inl (AssertionFailed ''sm_pLookupMap'')
      | Some M \<Rightarrow>
      (case deref (type_objects s) p of
        None \<Rightarrow> Inl InvalidPointer
      | Some T \<Rightarrow>
      (let (removed, M') = LookupMap_Remove M (m_name T) in
       if \<not> removed then Inl (AssertionFailed ''sm_pLookupMap->Remove'')
       else Inr (s\<lparr>sm_pLookupMap := Some M',
                   type_objects := (type_objects s)
                     [p := T\<lparr>m_spTypeParent := None, m_spTypeTemplate := None\<rparr>]\<rparr>)))))"

definition Type_Find :: "name \<Rightarrow> 'o registry \<Rightarrow> fault + type_ptr option" where
  "Type_Find typeName s =
     (case sm_pLookupMap s of
        None \<Rightarrow> Inr None
      | Some M \<Rightarrow>
      (case M typeName of
        None \<Rightarrow> Inr None
      | Some pType \<Rightarrow>
          (case pType of
             None \<Rightarrow> Inl (AssertionFailed ''pType'')
           | Some p \<Rightarrow> Inr (Some p))))"

text \<open>
  Modelled from the spec: \<^verbatim>\<open>GameObject::ReleaseStaticType\<close>, which is not under src/.
  The spec calls it the engine-specific unregistration of the distinguished root
  type and says that a second shutdown is tolerated: when the static type of
  \<^verbatim>\<open>GameObject\<close> is set it is unregistered and the pointer cleared, otherwise nothing
  happens.
\<close>

definition GameObject_ReleaseStaticType :: "'o registry \<Rightarrow> fault + 'o registry" where
  "GameObject_ReleaseStaticType s =
     (case GameObject_sm_spStaticType s of
        None \<Rightarrow> Inr s
      | Some t \<Rightarrow>
          (case Type_Unregister (Some t) s of
             Inl e \<Rightarrow> Inl e
           | Inr s' \<Rightarrow> Inr (s'\<lparr>GameObject_sm_spStaticType := None\<rparr>)))"

text \<open>
  \<^verbatim>\<open>Type::Shutdown\<close>, and its three steps between the two trace lines, named so
  that their order can be stated.
\<close>

definition delete_LookupMap :: "'o registry \<Rightarrow> 'o registry" where
  "delete_LookupMap s = s\<lparr>sm_pLookupMap := None\<rparr>"

definition release_TypePackage :: "'o registry \<Rightarrow> 'o registry" where
  "release_TypePackage s = s\<lparr>sm_spTypePackage := None\<rparr>"

definition msg_shutdown_begin :: string where
  "msg_shutdown_begin = ''Shutting down Type registration.'' @ [CHR 0x0A]"

definition msg_shutdown_end :: string where
  "msg_shutdown_end = ''Type registration shutdown complete.'' @ [CHR 0x0A]"

definition Type_Shutdown :: "'o registry \<Rightarrow> fault + 'o registry" where
  "Type_Shutdown s =
     (case GameObject_ReleaseStaticType (HELIUM_TRACE TRACE_INFO msg_shutdown_begin s) of
        Inl e \<Rightarrow> Inl e
      | Inr s1 \<Rightarrow>
          Inr (HELIUM_TRACE TRACE_INFO msg_shutdown_end
                 (release_TypePackage (delete_LookupMap s1))))"

text \<open>A registry on which nothing has been called yet.\<close>

definition registry_init :: "'o \<Rightarrow> 'o registry" where
  "registry_init ob =
     \<lparr>objs = ob, type_objects = [], sm_pLookupMap = None, sm_spTypePackage = None,
      GameObject_sm_spStaticType = None, trace_log = []\<rparr>"

text \<open>
  Sequences of calls to the registry. A run stops at the first fault; a run that
  returns also yields the names whose entries its \<^verbatim>\<open>Unregister\<close> calls removed.
\<close>

datatype registry_op =
    OpCreate name "pkg_ptr option" "type_ptr option" "gobj_ptr option" "32 word"
  | OpUnregister "type_ptr option"
  | OpFind name

fun run_registry_ops ::
  "'o object_system \<Rightarrow> registry_op list \<Rightarrow> 'o registry \<Rightarrow> fault + ('o registry \<times> name list)" where
  "run_registry_ops osys [] s = Inr (s, [])"
| "run_registry_ops osys (OpCreate n pkg par tmpl fl # ops) s =
     (case Type_Create osys n pkg par tmpl fl s of
        Inl e \<Rightarrow> Inl e
      | Inr (r, s') \<Rightarrow> run_registry_ops osys ops s')"
| "run_registry_ops osys (OpUnregister pType # ops) s =
     (case Type_Unregister pType s of
        Inl e \<Rightarrow> Inl e
      | Inr s' \<Rightarrow>
          (case run_registry_ops osys ops s' of
             Inl e \<Rightarrow> Inl e
           | Inr (s'', removed) \<Rightarrow>
               Inr (s'',
                    (case pType of
                       None \<Rightarrow> []
                     | Some p \<Rightarrow>
                         (case deref (type_objects s) p of
                            None \<Rightarrow> []
                          | Some T \<Rightarrow> [m_name T])) @ removed)))"
| "run_registry_ops osys (OpFind n # ops) s =
     (case Type_Find n s of
        Inl e \<Rightarrow> Inl e
      | Inr r \<Rightarrow> run_registry_ops osys ops s)"

subsection \<open>An object system\<close>

text \<open>
  Modelled from the spec: the operations of \<^verbatim>\<open>GameObject\<close> that \<^verbatim>\<open>Type::Create\<close>
  calls, none of them under src/. The spec says of them only that re-owning,
  renaming and registration act on the template object and may fail. In this
  instance an object has a name, an owner and flags; an operation fails on an
  address that holds no object, and re-owning, renaming and registering fail when
  another, registered object already has the same owner and name.
\<close>

record GameObject =
  go_name :: name
  go_owner :: "gobj_ptr option"
  go_flags :: "32 word"

record gobj_store =
  gobjects :: "GameObject list"
  registered :: "gobj_ptr list"

definition name_taken :: "gobj_store \<Rightarrow> gobj_ptr \<Rightarrow> gobj_ptr option \<Rightarrow> name \<Rightarrow> bool" where
  "name_taken st self owner n =
     list_ex (\<lambda>q. q \<noteq> self \<and> q < length (gobjects st) \<and>
                  go_owner (gobjects st ! q) = owner \<and> go_name (gobjects st ! q) = n)
       (registered st)"

definition GameObject_SetOwner :: "gobj_ptr \<Rightarrow> pkg_ptr \<Rightarrow> gobj_store \<Rightarrow> bool \<times> gobj_store" where
  "GameObject_SetOwner p pkg st =
     (if p < length (gobjects st) \<and> \<not> name_taken st p (Some pkg) (go_name (gobjects st ! p))
      then (True, st\<lparr>gobjects := (gobjects st)[p := (gobjects st ! p)\<lparr>go_owner := Some pkg\<rparr>]\<rparr>)
      else (False, st))"

definition GameObject_SetName :: "gobj_ptr \<Rightarrow> name \<Rightarrow> gobj_store \<Rightarrow> bool \<times> gobj_store" where
  "GameObject_SetName p n st =
     (if p < length (gobjects st) \<and> \<not> name_taken st p (go_owner (gobjects st ! p)) n
      then (True, st\<lparr>gobjects := (gobjects st)[p := (gobjects st ! p)\<lparr>go_name := n\<rparr>]\<rparr>)
      else (False, st))"

definition GameObject_SetFlags :: "gobj_ptr \<Rightarrow> 32 word \<Rightarrow> gobj_store \<Rightarrow> gobj_store" where
  "GameObject_SetFlags p flagMask st =
     (if p < length (gobjects st)
      then st\<lparr>gobjects := (gobjects st)
                [p := (gobjects st ! p)\<lparr>go_flags := or (go_flags (gobjects st ! p)) flagMask\<rparr>]\<rparr>
      else st)"

definition GameObject_RegisterObject :: "gobj_ptr \<Rightarrow> gobj_store \<Rightarrow> bool \<times> gobj_store" where
  "GameObject_RegisterObject p st =
     (if p < length (gobjects st) \<and> p \<notin> set (registered st) \<and>
         \<not> name_taken st p (go_owner (gobjects st ! p)) (go_name (gobjects st ! p))
      then (True, st\<lparr>registered := p # registered st\<rparr>)
      else (False, st))"

definition GameObject_system :: "32 word \<Rightarrow> gobj_store object_system" where
  "GameObject_system default_template_flag =
     \<lparr>SetOwner = GameObject_SetOwner, SetName = GameObject_SetName,
      SetFlags = GameObject_SetFlags, FLAG_DEFAULT_TEMPLATE = default_template_flag,
      RegisterObject = GameObject_RegisterObject\<rparr>"

text \<open>
  Three fresh objects at the addresses 0, 1 and 2, and the package at address 3
  that is to own the templates.
\<close>

definition three_templates :: gobj_store where
  "three_templates =
     \<lparr>gobjects =
        [\<lparr>go_name = ''t0'', go_owner = None, go_flags = 0\<rparr>,
         \<lparr>go_name = ''t1'', go_owner = None, go_flags = 0\<rparr>,
         \<lparr>go_name = ''t2'', go_owner = None, go_flags = 0\<rparr>,
         \<lparr>go_name = ''Types'', go_owner = None, go_flags = 0\<rparr>],
      registered = [3]\<rparr>"

text \<open>
  The entry of a name in the registry: \<open>None\<close> when the map does not exist or has
  no entry for the name.
\<close>

definition lookup :: "'o registry \<Rightarrow> name \<Rightarrow> type_ptr option option" where
  "lookup s n = (case sm_pLookupMap s of None \<Rightarrow> None | Some M \<Rightarrow> M n)"

text \<open>
  The spec's end-to-end scenario: the registry after ``Object'', ``Actor'' and
  ``Player'' have been created with the templates 0, 1 and 2, owned by the package
  3, ``Object'' being the static type of \<^verbatim>\<open>GameObject\<close>. The flag of a default
  template is taken to be 4 here.
\<close>

definition scenario_start :: "gobj_store registry" where
  "scenario_start = (registry_init three_templates)\<lparr>sm_spTypePackage := Some 3\<rparr>"

definition scenario_registry :: "gobj_store registry" where
  "scenario_registry =
     \<lparr>objs =
        \<lparr>gobjects =
           [\<lparr>go_name = ''Object'', go_owner = Some 3, go_flags = 4\<rparr>,
            \<lparr>go_name = ''Actor'', go_owner = Some 3, go_flags = 4\<rparr>,
            \<lparr>go_name = ''Player'', go_owner = Some 3, go_flags = 4\<rparr>,
            \<lparr>go_name = ''Types'', go_owner = None, go_flags = 0\<rparr>],
         registered = [2, 1, 0, 3]\<rparr>,
      type_objects = scenario_heap,
      sm_pLookupMap =
        Some [''Object'' \<mapsto> Some 0, ''Actor'' \<mapsto> Some 1, ''Player'' \<mapsto> Some 2],
      sm_spTypePackage = Some 3,
      GameObject_sm_spStaticType = Some 0,
      trace_log = []\<rparr>"

subsection \<open>Subtype queries\<close>

lemma IsSubtypeOf_loop_chain:
  "parent_chain h p xs \<Longrightarrow> IsSubtypeOf_loop h p t = Some (Inr (t \<in> set xs))"
proof (induction xs arbitrary: p)
  case Nil
  then show ?case by (simp add: IsSubtypeOf_loop.simps)
next
  case (Cons a as)
  from Cons.prems obtain T where p: "p = Some a" and d: "deref h a = Some T"
    and rest: "parent_chain h (m_spTypeParent T) as"
    by (auto split: option.splits)
  show ?case
  proof (cases "a = t")
    case True
    with p show ?thesis by (simp add: IsSubtypeOf_loop.simps)
  next
    case False
    have "IsSubtypeOf_loop h p t = IsSubtypeOf_loop h (m_spTypeParent T) t"
      using p d False by (subst IsSubtypeOf_loop.simps) simp
    also have "\<dots> = Some (Inr (t \<in> set as))"
      by (rule Cons.IH [OF rest])
    finally show ?thesis using False by auto
  qed
qed

lemma parent_chain_distinct: "parent_chain h p xs \<Longrightarrow> distinct xs"
proof (induction xs arbitrary: p)
  case Nil
  then show ?case by simp
next
  case (Cons a as)
  from Cons.prems obtain T where d: "deref h a = Some T"
    and rest: "parent_chain h (m_spTypeParent T) as"
    by (auto split: option.splits)
  have "a \<notin> set as"
  proof
    assume "a \<in> set as"
    then obtain ys zs where split: "as = ys @ a # zs"
      by (auto simp: in_set_conv_decomp)
    have tail: "parent_chain h q (us @ vs) \<Longrightarrow> \<exists>q'. parent_chain h q' vs \<and> (us = [] \<longrightarrow> q' = q)"
      for q us vs
    proof (induction us arbitrary: q)
      case Nil
      then show ?case by auto
    next
      case (Cons u us)
      then show ?case by (auto split: option.splits)
    qed
    from tail [of "m_spTypeParent T" ys "a # zs"] rest split
    obtain q' where "parent_chain h q' (a # zs)" by auto
    with d have "parent_chain h (m_spTypeParent T) zs" by (auto split: option.splits)
    moreover have "parent_chain h q us \<Longrightarrow> parent_chain h q vs \<Longrightarrow> us = vs" for q us vs
    proof (induction us arbitrary: q vs)
      case Nil
      then show ?case by (cases vs) auto
    next
      case (Cons u us)
      then show ?case by (cases vs) (auto split: option.splits)
    qed
    ultimately have "zs = as" using rest by blast
    with split show False by (metis append_Cons append_Nil length_append length_Cons
          add_Suc_right le_add2 not_less_eq_eq)
  qed
  moreover have "distinct as" by (rule Cons.IH [OF rest])
  ultimately show ?case by simp
qed

text \<open>
  C1. A type is a subtype of itself (whatever its parent links are). For a type
  \<open>T\<close> whose parent chain \<open>xs\<close> ends at a null parent, \<open>T.IsSubtypeOf(A)\<close> returns, and
  returns true exactly when \<open>A\<close> is one of the nodes of the chain (\<open>T\<close> included); the
  chain has no repeated node. For a chain A, B, C (C parent of B, B parent of A, C a
  root) of three different descriptors, \<open>A.IsSubtypeOf(C)\<close> is true and
  \<open>C.IsSubtypeOf(A)\<close> is false.
\<close>

theorem C1_IsSubtypeOf:
  "Type_IsSubtypeOf h T (Some T) = Some (Inr True) \<and>
   (parent_chain h (Some T) xs \<longrightarrow>
      Type_IsSubtypeOf h T (Some A) = Some (Inr (A \<in> set xs)) \<and> T \<in> set xs \<and> distinct xs) \<and>
   (parent_chain h (Some X) [X, Y, Z] \<longrightarrow>
      Type_IsSubtypeOf h X (Some Z) = Some (Inr True) \<and>
      Type_IsSubtypeOf h Z (Some X) = Some (Inr False))"
proof (intro conjI impI)
  show "Type_IsSubtypeOf h T (Some T) = Some (Inr True)"
    by (simp add: Type_IsSubtypeOf_def IsSubtypeOf_loop.simps)
next
  assume ch: "parent_chain h (Some T) xs"
  show "Type_IsSubtypeOf h T (Some A) = Some (Inr (A \<in> set xs))"
    using IsSubtypeOf_loop_chain [OF ch] by (simp add: Type_IsSubtypeOf_def)
  show "T \<in> set xs" using ch by (cases xs) auto
  show "distinct xs" by (rule parent_chain_distinct [OF ch])
next
  assume ch: "parent_chain h (Some X) [X, Y, Z]"
  show "Type_IsSubtypeOf h X (Some Z) = Some (Inr True)"
    using IsSubtypeOf_loop_chain [OF ch, of Z] by (simp add: Type_IsSubtypeOf_def)
  have d: "distinct [X, Y, Z]" by (rule parent_chain_distinct [OF ch])
  from ch obtain TX TY where "deref h X = Some TX" "m_spTypeParent TX = Some Y"
    "deref h Y = Some TY" "parent_chain h (m_spTypeParent TY) [Z]"
    by (auto split: option.splits)
  then have "parent_chain h (Some Z) [Z]" by (auto split: option.splits)
  from IsSubtypeOf_loop_chain [OF this, of X] d
  show "Type_IsSubtypeOf h Z (Some X) = Some (Inr False)"
    by (auto simp: Type_IsSubtypeOf_def)
qed

text \<open>
  The chain Player, Actor, Object of the spec's scenario, at the addresses 2, 1, 0.
\<close>

theorem C1_IsSubtypeOf_witness:
  "parent_chain scenario_heap (Some 2) [2, 1, 0] \<and>
   Type_IsSubtypeOf scenario_heap 2 (Some 2) = Some (Inr True) \<and>
   Type_IsSubtypeOf scenario_heap 2 (Some 1) = Some (Inr True) \<and>
   Type_IsSubtypeOf scenario_heap 2 (Some 0) = Some (Inr True) \<and>
   Type_IsSubtypeOf scenario_heap 0 (Some 2) = Some (Inr False) \<and>
   Type_IsSubtypeOf scenario_heap 2 (Some 7) = Some (Inr False)"
proof -
  have ch: "parent_chain scenario_heap (Some 2) [2, 1, 0]"
    by (simp add: scenario_heap_def deref_def)
  show ?thesis
    using ch C1_IsSubtypeOf [of scenario_heap 2 "[2, 1, 0]" 1 2 1 0]
      C1_IsSubtypeOf [of scenario_heap 2 "[2, 1, 0]" 0 2 1 0]
      C1_IsSubtypeOf [of scenario_heap 2 "[2, 1, 0]" 7 2 1 0]
    by simp
qed


subsection \<open>The live set of the proxy store\<close>

lemma Allocate_tracked_cases:
  assumes "TypeRefCountSupport_Allocate True sm = Inr (p, sm')"
  shows "p \<notin> active_set sm \<and> active_set sm' = insert p (active_set sm) \<and> sm' \<noteq> None"
  using assms
  by (auto simp: TypeRefCountSupport_Allocate_def HashSet_Insert_def active_set_def
      StaticData_new_def Let_def split: option.splits prod.splits if_splits)

lemma Release_tracked_cases:
  assumes "TypeRefCountSupport_Release True pp sm = Inr sm'"
  shows "\<exists>p. pp = Some p \<and> p \<in> active_set sm \<and> active_set sm' = active_set sm - {p} \<and> sm' \<noteq> None"
  using assms
  by (auto simp: TypeRefCountSupport_Release_def HashSet_Remove_def active_set_def
      Let_def split: option.splits prod.splits if_splits)

lemma run_tracked_history:
  "run_proxy_ops True ops sm = Inr (sm', evs) \<Longrightarrow> finite (active_set sm) \<Longrightarrow>
     active_set sm' = live_after evs (active_set sm) \<and>
     finite (active_set sm') \<and>
     card (active_set sm') + released evs = card (active_set sm) + issued evs \<and>
     issued evs = length (filter (\<lambda>x. x = OpAllocate) ops) \<and>
     released evs = length (filter (\<lambda>x. x \<noteq> OpAllocate) ops) \<and>
     (ops \<noteq> [] \<longrightarrow> sm' \<noteq> None)"
proof (induction ops arbitrary: sm evs)
  case Nil
  then show ?case by simp
next
  case (Cons x ops)
  show ?case
  proof (cases x)
    case OpAllocate
    with Cons.prems obtain p sm1 evs1 where
      a: "TypeRefCountSupport_Allocate True sm = Inr (p, sm1)" and
      r: "run_proxy_ops True ops sm1 = Inr (sm', evs1)" and e: "evs = Issued p # evs1"
      by (auto split: sum.splits prod.splits)
    note A = Allocate_tracked_cases [OF a]
    have fin: "finite (active_set sm1)" using A Cons.prems(2) by simp
    note IH = Cons.IH [OF r fin]
    have c: "card (active_set sm1) = Suc (card (active_set sm))"
      using A Cons.prems(2) by simp
    have ne: "sm' \<noteq> None"
    proof (cases ops)
      case Nil with r A show ?thesis by simp
    next
      case (Cons y ys) with IH show ?thesis by simp
    qed
    from IH have i1: "active_set sm' = live_after evs1 (active_set sm1)"
      and i2: "finite (active_set sm')"
      and i3: "card (active_set sm') + released evs1 = card (active_set sm1) + issued evs1"
      and i4: "issued evs1 = length (filter (\<lambda>x. x = OpAllocate) ops)"
      and i5: "released evs1 = length (filter (\<lambda>x. x \<noteq> OpAllocate) ops)"
      by blast+
    have "active_set sm' = live_after evs (active_set sm)" using i1 A e by simp
    moreover have "card (active_set sm') + released evs = card (active_set sm) + issued evs"
      using i3 c e by simp
    moreover have "issued evs = length (filter (\<lambda>x. x = OpAllocate) (x # ops))"
      using i4 e OpAllocate by simp
    moreover have "released evs = length (filter (\<lambda>x. x \<noteq> OpAllocate) (x # ops))"
      using i5 e OpAllocate by simp
    ultimately show ?thesis using i2 ne by blast
  next
    case (OpRelease pp)
    with Cons.prems obtain sm1 evs1 where
      a: "TypeRefCountSupport_Release True pp sm = Inr sm1" and
      r: "run_proxy_ops True ops sm1 = Inr (sm', evs1)" and e: "evs = Returned pp # evs1"
      by (auto split: sum.splits prod.splits)
    from Release_tracked_cases [OF a] obtain p where A: "pp = Some p" "p \<in> active_set sm"
      "active_set sm1 = active_set sm - {p}" "sm1 \<noteq> None" by blast
    have fin: "finite (active_set sm1)" using A Cons.prems(2) by simp
    note IH = Cons.IH [OF r fin]
    have c: "Suc (card (active_set sm1)) = card (active_set sm)"
      unfolding A(3) by (rule card_Suc_Diff1 [OF Cons.prems(2) A(2)])
    have ne: "sm' \<noteq> None"
    proof (cases ops)
      case Nil with r A show ?thesis by simp
    next
      case (Cons y ys) with IH show ?thesis by simp
    qed
    from IH have i1: "active_set sm' = live_after evs1 (active_set sm1)"
      and i2: "finite (active_set sm')"
      and i3: "card (active_set sm') + released evs1 = card (active_set sm1) + issued evs1"
      and i4: "issued evs1 = length (filter (\<lambda>x. x = OpAllocate) ops)"
      and i5: "released evs1 = length (filter (\<lambda>x. x \<noteq> OpAllocate) ops)"
      by blast+
    have "active_set sm' = live_after evs (active_set sm)" using i1 A e by simp
    moreover have "card (active_set sm') + released evs = card (active_set sm) + issued evs"
      using i3 c e by simp
    moreover have "issued evs = length (filter (\<lambda>x. x = OpAllocate) (x # ops))"
      using i4 e OpRelease by simp
    moreover have "released evs = length (filter (\<lambda>x. x \<noteq> OpAllocate) (x # ops))"
      using i5 e OpRelease by simp
    ultimately show ?thesis using i2 ne by blast
  qed
qed

lemma Allocate_consistent:
  assumes "store_consistent sm"
  shows "\<exists>p sm'. TypeRefCountSupport_Allocate True sm = Inr (p, sm') \<and> store_consistent sm'"
  using assms
  by (cases sm; cases "pool_free (proxyPool (the sm))")
    (auto simp: TypeRefCountSupport_Allocate_def HashSet_Insert_def store_consistent_def
      StaticData_new_def ObjectPool_new_def ObjectPool_Allocate_def Let_def
      split: option.splits prod.splits if_splits list.splits)

lemma Release_consistent:
  assumes "store_consistent sm" "TypeRefCountSupport_Release True pp sm = Inr sm'"
  shows "store_consistent sm'"
  using assms
  by (auto simp: TypeRefCountSupport_Release_def HashSet_Remove_def store_consistent_def
      ObjectPool_Release_def Let_def
      split: option.splits prod.splits if_splits list.splits)

lemma run_consistent:
  "run_proxy_ops True ops sm = Inr (sm', evs) \<Longrightarrow> store_consistent sm \<Longrightarrow> store_consistent sm'"
proof (induction ops arbitrary: sm evs)
  case Nil
  then show ?case by simp
next
  case (Cons x ops)
  show ?case
  proof (cases x)
    case OpAllocate
    with Cons.prems obtain p sm1 evs1 where
      a: "TypeRefCountSupport_Allocate True sm = Inr (p, sm1)" and
      r: "run_proxy_ops True ops sm1 = Inr (sm', evs1)"
      by (auto split: sum.splits prod.splits)
    from Allocate_consistent [OF Cons.prems(2)] a have "store_consistent sm1" by auto
    then show ?thesis by (rule Cons.IH [OF r])
  next
    case (OpRelease pp)
    with Cons.prems obtain sm1 evs1 where
      a: "TypeRefCountSupport_Release True pp sm = Inr sm1" and
      r: "run_proxy_ops True ops sm1 = Inr (sm', evs1)"
      by (auto split: sum.splits prod.splits)
    from Release_consistent [OF Cons.prems(2) a] have "store_consistent sm1" .
    then show ?thesis by (rule Cons.IH [OF r])
  qed
qed

text \<open>
  C5, as the claim states it, fails before the first \<^verbatim>\<open>Allocate\<close>: no cell has been
  issued and none released, but the count query does not return 0, since the
  static data does not exist yet and the query asserts that it does.
\<close>

theorem C5_count_before_first_Allocate:
  "run_proxy_ops True [] None = Inr (None, []) \<and>
   issued [] - released [] = 0 \<and>
   TypeRefCountSupport_GetActiveProxyCount None = Inl (AssertionFailed ''sm_pStaticData'')"
  by (simp add: TypeRefCountSupport_GetActiveProxyCount_def)

text \<open>
  C5, amended. With memory tracking enabled, after any sequence of \<^verbatim>\<open>Allocate\<close> and
  \<^verbatim>\<open>Release\<close> calls on a store that starts uncreated, none of which faulted: a
  cell is in the live set if and only if it has been issued and not given back
  since; no more cells were given back than issued; once at least one call has
  been made, \<^verbatim>\<open>GetActiveProxyCount\<close> returns the number of cells issued minus the
  number released (before the first call it fails its assertion); and the next
  \<^verbatim>\<open>Allocate\<close> returns a cell that is not live.
\<close>

theorem C5_live_set:
  assumes "run_proxy_ops True ops None = Inr (sm, evs)"
  shows "(\<forall>p. p \<in> active_set sm \<longleftrightarrow> p \<in> live_after evs {}) \<and>
         issued evs = length (filter (\<lambda>x. x = OpAllocate) ops) \<and>
         released evs = length (filter (\<lambda>x. x \<noteq> OpAllocate) ops) \<and>
         released evs \<le> issued evs \<and>
         TypeRefCountSupport_GetActiveProxyCount sm =
           (if ops = [] then Inl (AssertionFailed ''sm_pStaticData'')
            else Inr (issued evs - released evs)) \<and>
         (\<exists>p sm'. TypeRefCountSupport_Allocate True sm = Inr (p, sm') \<and> p \<notin> active_set sm)"
proof -
  have fin: "finite (active_set None)" by (simp add: active_set_def)
  note H = run_tracked_history [OF assms fin]
  have e0: "active_set None = {}" by (simp add: active_set_def)
  from H have "active_set sm = live_after evs (active_set None)" by blast
  then have h1: "active_set sm = live_after evs {}" by (simp only: e0)
  from H have "card (active_set sm) + released evs = card (active_set None) + issued evs"
    by blast
  then have h3: "card (active_set sm) + released evs = issued evs" by (simp add: e0)
  from H have h4: "issued evs = length (filter (\<lambda>x. x = OpAllocate) ops)"
    and h5: "released evs = length (filter (\<lambda>x. x \<noteq> OpAllocate) ops)"
    and h6: "ops \<noteq> [] \<longrightarrow> sm \<noteq> None" by blast+
  have count: "TypeRefCountSupport_GetActiveProxyCount sm =
      (if ops = [] then Inl (AssertionFailed ''sm_pStaticData'')
       else Inr (issued evs - released evs))"
  proof (cases "ops = []")
    case True
    with assms have "sm = None" by simp
    with True show ?thesis by (simp add: TypeRefCountSupport_GetActiveProxyCount_def)
  next
    case False
    with h6 obtain d where d: "sm = Some d" by auto
    from h3 have "card (active_set sm) = issued evs - released evs" by arith
    with d False show ?thesis
      by (simp add: TypeRefCountSupport_GetActiveProxyCount_def active_set_def)
  qed
  have "store_consistent None" by (simp add: store_consistent_def)
  from run_consistent [OF assms this] have "store_consistent sm" .
  from Allocate_consistent [OF this] obtain p sm' where
    al: "TypeRefCountSupport_Allocate True sm = Inr (p, sm')" by blast
  from Allocate_tracked_cases [OF al] al
  have next_ok: "\<exists>p sm'. TypeRefCountSupport_Allocate True sm = Inr (p, sm') \<and> p \<notin> active_set sm"
    by blast
  from h3 have "released evs \<le> issued evs" by arith
  with h1 h4 h5 count next_ok show ?thesis by blast
qed

lemma run_example:
  "run_proxy_ops True [OpAllocate, OpAllocate, OpRelease (Some 0), OpAllocate] None =
     Inr (Some \<lparr>proxyPool = \<lparr>pool_blockSize = 1024, pool_capacity = 1024, pool_next = 2,
                               pool_free = []\<rparr>,
                 activeProxySet = {0, 1}\<rparr>,
          [Issued 0, Issued 1, Returned (Some 0), Issued 0])"
  by (simp add: TypeRefCountSupport_Allocate_def TypeRefCountSupport_Release_def
      HashSet_Insert_def HashSet_Remove_def StaticData_new_def ObjectPool_new_def
      ObjectPool_Allocate_def ObjectPool_Release_def POOL_BLOCK_SIZE_def Let_def insert_commute)

theorem C5_live_set_witness:
  "run_proxy_ops True [OpAllocate, OpAllocate, OpRelease (Some 0), OpAllocate] None =
     Inr (Some \<lparr>proxyPool = \<lparr>pool_blockSize = 1024, pool_capacity = 1024, pool_next = 2,
                               pool_free = []\<rparr>,
                 activeProxySet = {0, 1}\<rparr>,
          [Issued 0, Issued 1, Returned (Some 0), Issued 0]) \<and>
   TypeRefCountSupport_GetActiveProxyCount
     (Some \<lparr>proxyPool = \<lparr>pool_blockSize = 1024, pool_capacity = 1024, pool_next = 2,
                           pool_free = []\<rparr>,
             activeProxySet = {0, 1}\<rparr>) = Inr 2"
  using C5_live_set [OF run_example] run_example by simp

subsection \<open>The proxy store after its shutdown\<close>

text \<open>
  C6, as the claim states it, fails for \<^verbatim>\<open>Allocate\<close>: called after \<^verbatim>\<open>Shutdown\<close> has
  destroyed a store in which the cells 0 and 1 were live, it fails no assertion
  and returns a cell.
\<close>

theorem C6_Allocate_after_Shutdown:
  "TypeRefCountSupport_Allocate True
     (TypeRefCountSupport_Shutdown
        (Some \<lparr>proxyPool = \<lparr>pool_blockSize = 1024, pool_capacity = 1024, pool_next = 2,
                              pool_free = []\<rparr>,
                activeProxySet = {0, 1}\<rparr>)) =
   Inr (0, Some \<lparr>proxyPool = \<lparr>pool_blockSize = 1024, pool_capacity = 1024, pool_next = 1,
                                 pool_free = []\<rparr>,
                   activeProxySet = {0}\<rparr>)"
  by (simp add: TypeRefCountSupport_Allocate_def TypeRefCountSupport_Shutdown_def
      HashSet_Insert_def StaticData_new_def ObjectPool_new_def ObjectPool_Allocate_def
      POOL_BLOCK_SIZE_def Let_def)

text \<open>
  C6, amended. After \<^verbatim>\<open>Shutdown\<close> has destroyed the static data, \<^verbatim>\<open>Release\<close> and the
  two diagnostic queries fail a fatal assertion. \<^verbatim>\<open>Allocate\<close> is not guarded by an
  assertion: it creates the static data anew, exactly as it does on a store that
  was never created, and returns the first cell of the new pool, so nothing of the
  destroyed pool is handed out. A second \<^verbatim>\<open>Shutdown\<close> changes nothing.
\<close>

theorem C6_after_Shutdown:
  "TypeRefCountSupport_Release mt (Some p) (TypeRefCountSupport_Shutdown sm) =
     Inl (AssertionFailed ''pStaticData'') \<and>
   TypeRefCountSupport_Release mt None (TypeRefCountSupport_Shutdown sm) =
     Inl (AssertionFailed ''pProxy'') \<and>
   TypeRefCountSupport_GetActiveProxyCount (TypeRefCountSupport_Shutdown sm) =
     Inl (AssertionFailed ''sm_pStaticData'') \<and>
   TypeRefCountSupport_GetFirstActiveProxy (TypeRefCountSupport_Shutdown sm) =
     Inl (AssertionFailed ''sm_pStaticData'') \<and>
   TypeRefCountSupport_Allocate mt (TypeRefCountSupport_Shutdown sm) =
     TypeRefCountSupport_Allocate mt None \<and>
   TypeRefCountSupport_Allocate mt None =
     Inr (0, Some \<lparr>proxyPool = \<lparr>pool_blockSize = 1024, pool_capacity = 1024, pool_next = 1,
                                   pool_free = []\<rparr>,
                     activeProxySet = (if mt then {0} else {})\<rparr>) \<and>
   TypeRefCountSupport_Shutdown (TypeRefCountSupport_Shutdown sm) =
     TypeRefCountSupport_Shutdown sm"
  by (simp add: TypeRefCountSupport_Allocate_def TypeRefCountSupport_Release_def
      TypeRefCountSupport_GetActiveProxyCount_def TypeRefCountSupport_GetFirstActiveProxy_def
      TypeRefCountSupport_Shutdown_def HashSet_Insert_def StaticData_new_def ObjectPool_new_def
      ObjectPool_Allocate_def POOL_BLOCK_SIZE_def Let_def)

subsection \<open>Facts about the registry operations\<close>

lemmas gsys_defs = GameObject_system_def GameObject_SetOwner_def GameObject_SetName_def
  GameObject_SetFlags_def GameObject_RegisterObject_def name_taken_def

lemma scenario_run:
  "run_registry_ops (GameObject_system 4)
     [OpCreate ''Object'' (Some 3) None (Some 0) 0,
      OpCreate ''Actor'' (Some 3) (Some 0) (Some 1) 0,
      OpCreate ''Player'' (Some 3) (Some 1) (Some 2) 0] scenario_start =
   Inr (scenario_registry\<lparr>GameObject_sm_spStaticType := None\<rparr>, [])"
  by (simp add: Type_Create_def gsys_defs scenario_start_def scenario_registry_def
      scenario_heap_def registry_init_def three_templates_def LookupMap_Insert_def Let_def
      numeral_2_eq_2)

lemma Find_lookup:
  "Type_Find n s =
     (case lookup s n of
        None \<Rightarrow> Inr None
      | Some None \<Rightarrow> Inl (AssertionFailed ''pType'')
      | Some (Some p) \<Rightarrow> Inr (Some p))"
  by (simp add: Type_Find_def lookup_def split: option.splits)

lemma Create_None_frame:
  assumes "Type_Create osys n pkg par tmpl fl s = Inr (None, s')"
  shows "sm_pLookupMap s' = sm_pLookupMap s \<and> type_objects s' = type_objects s \<and>
         sm_spTypePackage s' = sm_spTypePackage s \<and>
         GameObject_sm_spStaticType s' = GameObject_sm_spStaticType s"
  using assms
  by (auto simp: Type_Create_def Let_def LookupMap_Insert_def HELIUM_TRACE_def
      split: option.splits prod.splits if_splits)

lemma Create_Some_lookup:
  assumes "Type_Create osys n pkg par tmpl fl s = Inr (Some p, s')"
  shows "lookup s n = None \<and> lookup s' n = Some (Some p) \<and>
         (\<forall>m. m \<noteq> n \<longrightarrow> lookup s' m = lookup s m) \<and>
         p = length (type_objects s) \<and>
         type_objects s' = type_objects s @
           [\<lparr>m_name = n, m_spTypeParent = par, m_spTypeTemplate = tmpl, m_typeFlags = fl\<rparr>]"
  using assms
  by (auto simp: Type_Create_def Let_def LookupMap_Insert_def HELIUM_TRACE_def lookup_def
      split: option.splits prod.splits if_splits)

lemma Create_lookup_other:
  assumes "Type_Create osys n pkg par tmpl fl s = Inr (r, s')" "lookup s m = Some v"
  shows "lookup s' m = Some v"
proof (cases r)
  case None
  with Create_None_frame [of osys n pkg par tmpl fl s s'] assms show ?thesis
    by (simp add: lookup_def)
next
  case (Some p)
  with Create_Some_lookup [of osys n pkg par tmpl fl s p s'] assms show ?thesis
    by (cases "m = n") auto
qed

lemma Unregister_results:
  assumes "Type_Unregister pType s = Inr s'"
  shows "\<exists>p T M. pType = Some p \<and> sm_pLookupMap s = Some M \<and>
           deref (type_objects s) p = Some T \<and> M (m_name T) \<noteq> None \<and>
           s' = s\<lparr>sm_pLookupMap := Some (M(m_name T := None)),
                  type_objects := (type_objects s)
                    [p := T\<lparr>m_spTypeParent := None, m_spTypeTemplate := None\<rparr>]\<rparr>"
  using assms
  by (auto simp: Type_Unregister_def LookupMap_Remove_def Let_def
      split: option.splits prod.splits if_splits)

lemma run_keeps_entry:
  "run_registry_ops osys ops s = Inr (s', removed) \<Longrightarrow> lookup s n = Some v \<Longrightarrow>
   n \<notin> set removed \<Longrightarrow> lookup s' n = Some v"
proof (induction osys ops s arbitrary: removed rule: run_registry_ops.induct)
  case (1 osys s)
  then show ?case by simp
next
  case (2 osys m pkg par tmpl fl ops s)
  from "2.prems"(1) obtain r s1 where
    c: "Type_Create osys m pkg par tmpl fl s = Inr (r, s1)" and
    r: "run_registry_ops osys ops s1 = Inr (s', removed)"
    by (auto split: sum.splits prod.splits)
  from Create_lookup_other [OF c "2.prems"(2)] have "lookup s1 n = Some v" .
  from "2.IH" [OF c refl r this "2.prems"(3)] show ?case .
next
  case (3 osys pType ops s)
  from "3.prems"(1) obtain s1 removed1 where
    u: "Type_Unregister pType s = Inr s1" and
    r: "run_registry_ops osys ops s1 = Inr (s', removed1)" and
    rem: "removed = (case pType of None \<Rightarrow> [] | Some p \<Rightarrow>
            (case deref (type_objects s) p of None \<Rightarrow> [] | Some T \<Rightarrow> [m_name T])) @ removed1"
    by (auto split: sum.splits prod.splits)
  from Unregister_results [OF u] obtain p T M where
    f: "pType = Some p" "sm_pLookupMap s = Some M" "deref (type_objects s) p = Some T"
      "s1 = s\<lparr>sm_pLookupMap := Some (M(m_name T := None)),
              type_objects := (type_objects s)
                [p := T\<lparr>m_spTypeParent := None, m_spTypeTemplate := None\<rparr>]\<rparr>"
    by blast
  from rem f have rem': "removed = m_name T # removed1" by simp
  with "3.prems"(3) have ne: "n \<noteq> m_name T" and ni: "n \<notin> set removed1" by auto
  from f ne "3.prems"(2) have "lookup s1 n = Some v" by (simp add: lookup_def)
  from "3.IH" [OF u r this ni] show ?case .
next
  case (4 osys m ops s)
  from "4.prems"(1) obtain r where
    c: "Type_Find m s = Inr r" and
    r: "run_registry_ops osys ops s = Inr (s', removed)"
    by (auto split: sum.splits)
  from "4.IH" [OF c r "4.prems"(2) "4.prems"(3)] show ?case .
qed

lemma Shutdown_results:
  assumes "Type_Shutdown s = Inr s'"
  shows "sm_pLookupMap s' = None \<and> sm_spTypePackage s' = None \<and>
         GameObject_sm_spStaticType s' = None"
  using assms
  by (auto simp: Type_Shutdown_def GameObject_ReleaseStaticType_def HELIUM_TRACE_def
      delete_LookupMap_def release_TypePackage_def
      split: sum.splits option.splits)

subsection \<open>Creating a type\<close>

lemma scenario_SetOwner:
  "SetOwner (GameObject_system 4) 1 3 (objs scenario_registry) = (True, objs scenario_registry)"
  by (simp add: gsys_defs scenario_registry_def)

lemma scenario_SetName:
  "SetName (GameObject_system 4) 1 ''Object'' (objs scenario_registry) =
     (False, objs scenario_registry)"
  by (simp add: gsys_defs scenario_registry_def)

lemma duplicate_Create_returns_null:
  "Type_Create (GameObject_system 4) ''Object'' (Some 3) None (Some 1) 0 scenario_registry =
     Inr (None, scenario_registry\<lparr>trace_log := [(TRACE_ERROR, msg_name ''Object'')]\<rparr>)"
  by (simp add: Type_Create_def gsys_defs scenario_registry_def HELIUM_TRACE_def Let_def)

text \<open>
  C2. Called with a non-empty name, a package and a template object,
  \<^verbatim>\<open>Type::Create\<close> returns null and appends one error line to the trace when
  re-owning the template fails, when re-owning succeeds and renaming fails, and
  when both succeed and registering the template fails; the line is the one of
  the failing step and holds the name of the type between quotes. When the three
  steps succeed it does not return null: if the name has no entry in the registry
  it returns a new descriptor, added to the heap and entered in the map under the
  name, and if the name has an entry it fails the verification of the insertion,
  which is fatal and not a result. Whenever it returns a descriptor, the
  descriptor is not null, carries the given name, parent, template and flags, is
  what \<^verbatim>\<open>Find\<close> returns for the name, and nothing was traced.
\<close>

theorem C2_Create_failures:
  "(let (owned, o1) = SetOwner osys tmpl pkg (objs s);
        (named, o2) = SetName osys tmpl (c # cs) o1;
        (registered, o4) =
          RegisterObject osys tmpl (SetFlags osys tmpl (FLAG_DEFAULT_TEMPLATE osys) o2);
        result = Type_Create osys (c # cs) (Some pkg) par (Some tmpl) fl s
    in (\<not> owned \<longrightarrow>
          result = Inr (None, s\<lparr>objs := o1,
                                 trace_log := trace_log s @ [(TRACE_ERROR, msg_owner (c # cs))]\<rparr>)) \<and>
       (owned \<and> \<not> named \<longrightarrow>
          result = Inr (None, s\<lparr>objs := o2,
                                 trace_log := trace_log s @ [(TRACE_ERROR, msg_name (c # cs))]\<rparr>)) \<and>
       (owned \<and> named \<and> \<not> registered \<longrightarrow>
          result = Inr (None, s\<lparr>objs := o4,
                                 trace_log := trace_log s @ [(TRACE_ERROR, msg_register (c # cs))]\<rparr>)) \<and>
       (owned \<and> named \<and> registered \<longrightarrow> (\<forall>s'. result \<noteq> Inr (None, s'))) \<and>
       (owned \<and> named \<and> registered \<and> lookup s (c # cs) = None \<longrightarrow>
          result =
            Inr (Some (length (type_objects s)),
                 s\<lparr>objs := o4,
                   type_objects := type_objects s @
                     [\<lparr>m_name = c # cs, m_spTypeParent = par, m_spTypeTemplate = Some tmpl,
                       m_typeFlags = fl\<rparr>],
                   sm_pLookupMap :=
                     Some ((case sm_pLookupMap s of None \<Rightarrow> Map.empty | Some M \<Rightarrow> M)
                            (c # cs \<mapsto> Some (length (type_objects s))))\<rparr>)) \<and>
       (owned \<and> named \<and> registered \<and> lookup s (c # cs) \<noteq> None \<longrightarrow>
          result = Inl (AssertionFailed ''sm_pLookupMap->Insert''))) \<and>
   (\<forall>n pTypePackage pTemplate p s'.
      Type_Create osys n pTypePackage par pTemplate fl s = Inr (Some p, s') \<longrightarrow>
        deref (type_objects s') p =
          Some \<lparr>m_name = n, m_spTypeParent = par, m_spTypeTemplate = pTemplate,
                 m_typeFlags = fl\<rparr> \<and>
        pTemplate \<noteq> None \<and> Type_Find n s' = Inr (Some p) \<and> trace_log s' = trace_log s) \<and>
   msg_owner n = ''Type::Initialize(): Failed to set type '' @ quoted n @
     '' template object owner.'' @ [CHR 0x0A] \<and>
   msg_name n = ''Type::Initialize(): Failed to set type '' @ quoted n @
     '' template object name.'' @ [CHR 0x0A] \<and>
   msg_register n = ''Type::Initialize(): Failed to register type '' @ quoted n @
     '' template object.'' @ [CHR 0x0A]"
proof -
  have part1: "(let (owned, o1) = SetOwner osys tmpl pkg (objs s);
        (named, o2) = SetName osys tmpl (c # cs) o1;
        (registered, o4) =
          RegisterObject osys tmpl (SetFlags osys tmpl (FLAG_DEFAULT_TEMPLATE osys) o2);
        result = Type_Create osys (c # cs) (Some pkg) par (Some tmpl) fl s
    in (\<not> owned \<longrightarrow>
          result = Inr (None, s\<lparr>objs := o1,
                                 trace_log := trace_log s @ [(TRACE_ERROR, msg_owner (c # cs))]\<rparr>)) \<and>
       (owned \<and> \<not> named \<longrightarrow>
          result = Inr (None, s\<lparr>objs := o2,
                                 trace_log := trace_log s @ [(TRACE_ERROR, msg_name (c # cs))]\<rparr>)) \<and>
       (owned \<and> named \<and> \<not> registered \<longrightarrow>
          result = Inr (None, s\<lparr>objs := o4,
                                 trace_log := trace_log s @ [(TRACE_ERROR, msg_register (c # cs))]\<rparr>)) \<and>
       (owned \<and> named \<and> registered \<longrightarrow> (\<forall>s'. result \<noteq> Inr (None, s'))) \<and>
       (owned \<and> named \<and> registered \<and> lookup s (c # cs) = None \<longrightarrow>
          result =
            Inr (Some (length (type_objects s)),
                 s\<lparr>objs := o4,
                   type_objects := type_objects s @
                     [\<lparr>m_name = c # cs, m_spTypeParent = par, m_spTypeTemplate = Some tmpl,
                       m_typeFlags = fl\<rparr>],
                   sm_pLookupMap :=
                     Some ((case sm_pLookupMap s of None \<Rightarrow> Map.empty | Some M \<Rightarrow> M)
                            (c # cs \<mapsto> Some (length (type_objects s))))\<rparr>)) \<and>
       (owned \<and> named \<and> registered \<and> lookup s (c # cs) \<noteq> None \<longrightarrow>
          result = Inl (AssertionFailed ''sm_pLookupMap->Insert'')))"
    by (auto simp: Type_Create_def Let_def HELIUM_TRACE_def LookupMap_Insert_def lookup_def
        split: prod.splits option.splits)
  have part2: "\<forall>n pTypePackage pTemplate p s'.
      Type_Create osys n pTypePackage par pTemplate fl s = Inr (Some p, s') \<longrightarrow>
        deref (type_objects s') p =
          Some \<lparr>m_name = n, m_spTypeParent = par, m_spTypeTemplate = pTemplate,
                 m_typeFlags = fl\<rparr> \<and>
        pTemplate \<noteq> None \<and> Type_Find n s' = Inr (Some p) \<and> trace_log s' = trace_log s"
  proof (intro allI impI)
    fix n pTypePackage pTemplate p s'
    assume a: "Type_Create osys n pTypePackage par pTemplate fl s = Inr (Some p, s')"
    note L = Create_Some_lookup [OF a]
    from L have "deref (type_objects s') p =
          Some \<lparr>m_name = n, m_spTypeParent = par, m_spTypeTemplate = pTemplate,
                 m_typeFlags = fl\<rparr>" by (simp add: deref_def)
    moreover from L have "Type_Find n s' = Inr (Some p)" by (simp add: Find_lookup)
    moreover from a have "pTemplate \<noteq> None \<and> trace_log s' = trace_log s"
      by (auto simp: Type_Create_def Let_def LookupMap_Insert_def HELIUM_TRACE_def
          split: option.splits prod.splits if_splits)
    ultimately show "deref (type_objects s') p =
          Some \<lparr>m_name = n, m_spTypeParent = par, m_spTypeTemplate = pTemplate,
                 m_typeFlags = fl\<rparr> \<and>
        pTemplate \<noteq> None \<and> Type_Find n s' = Inr (Some p) \<and> trace_log s' = trace_log s"
      by blast
  qed
  show ?thesis using part1 part2
    by (simp only: msg_owner_def msg_name_def msg_register_def simp_thms)
qed

lemma owner_failure_example:
  "SetOwner (GameObject_system 4) 9 3 (objs scenario_start) = (False, objs scenario_start)"
  by (simp add: gsys_defs scenario_start_def registry_init_def three_templates_def)

lemma register_failure_steps:
  "SetOwner (GameObject_system 4) 0 3 (objs scenario_registry) = (True, objs scenario_registry)"
  "SetName (GameObject_system 4) 0 ''Object'' (objs scenario_registry) =
     (True, objs scenario_registry)"
  "RegisterObject (GameObject_system 4) 0
     (SetFlags (GameObject_system 4) 0 (FLAG_DEFAULT_TEMPLATE (GameObject_system 4))
        (objs scenario_registry)) = (False, objs scenario_registry)"
  by (simp_all add: gsys_defs scenario_registry_def)

lemma success_steps:
  "SetOwner (GameObject_system 4) 0 3 (objs scenario_start) =
     (True, three_templates\<lparr>gobjects := (gobjects three_templates)
        [0 := \<lparr>go_name = ''t0'', go_owner = Some 3, go_flags = 0\<rparr>]\<rparr>)"
  "SetName (GameObject_system 4) 0 ''Object''
     (three_templates\<lparr>gobjects := (gobjects three_templates)
        [0 := \<lparr>go_name = ''t0'', go_owner = Some 3, go_flags = 0\<rparr>]\<rparr>) =
     (True, three_templates\<lparr>gobjects := (gobjects three_templates)
        [0 := \<lparr>go_name = ''Object'', go_owner = Some 3, go_flags = 0\<rparr>]\<rparr>)"
  "RegisterObject (GameObject_system 4) 0
     (SetFlags (GameObject_system 4) 0 (FLAG_DEFAULT_TEMPLATE (GameObject_system 4))
       (three_templates\<lparr>gobjects := (gobjects three_templates)
          [0 := \<lparr>go_name = ''Object'', go_owner = Some 3, go_flags = 0\<rparr>]\<rparr>)) =
     (True, \<lparr>gobjects = (gobjects three_templates)
          [0 := \<lparr>go_name = ''Object'', go_owner = Some 3, go_flags = 4\<rparr>],
        registered = [0, 3]\<rparr>)"
  "lookup scenario_start ''Object'' = None"
  by (simp_all add: gsys_defs scenario_start_def registry_init_def three_templates_def
      lookup_def)

theorem C2_Create_failures_witness:
  "Type_Create (GameObject_system 4) ''Object'' (Some 3) None (Some 9) 0 scenario_start =
     Inr (None, scenario_start\<lparr>trace_log := [(TRACE_ERROR, msg_owner ''Object'')]\<rparr>) \<and>
   Type_Create (GameObject_system 4) ''Object'' (Some 3) None (Some 1) 0 scenario_registry =
     Inr (None, scenario_registry\<lparr>trace_log := [(TRACE_ERROR, msg_name ''Object'')]\<rparr>) \<and>
   Type_Create (GameObject_system 4) ''Object'' (Some 3) None (Some 0) 0 scenario_registry =
     Inr (None, scenario_registry\<lparr>trace_log := [(TRACE_ERROR, msg_register ''Object'')]\<rparr>) \<and>
   Type_Create (GameObject_system 4) ''Object'' (Some 3) None (Some 0) 7 scenario_start =
     Inr (Some 0,
          scenario_start
            \<lparr>objs := \<lparr>gobjects = (gobjects three_templates)
                        [0 := \<lparr>go_name = ''Object'', go_owner = Some 3, go_flags = 4\<rparr>],
                      registered = [0, 3]\<rparr>,
             type_objects :=
               [\<lparr>m_name = ''Object'', m_spTypeParent = None, m_spTypeTemplate = Some 0,
                 m_typeFlags = 7\<rparr>],
             sm_pLookupMap := Some [''Object'' \<mapsto> Some 0]\<rparr>) \<and>
   msg_name ''Object'' =
     ''Type::Initialize(): Failed to set type '' @ [CHR 0x22] @ ''Object'' @ [CHR 0x22] @
     '' template object name.'' @ [CHR 0x0A]"
proof -
  have f1: "Type_Create (GameObject_system 4) ''Object'' (Some 3) None (Some 9) 0
      scenario_start =
     Inr (None, scenario_start\<lparr>trace_log := [(TRACE_ERROR, msg_owner ''Object'')]\<rparr>)"
    using C2_Create_failures [where osys = "GameObject_system 4" and tmpl = 9 and pkg = 3
        and s = scenario_start and c = "CHR ''O''" and cs = "''bject''" and par = None
        and fl = 0 and n = "''Object''"]
      owner_failure_example
    by (simp add: Let_def scenario_start_def registry_init_def split: prod.splits)
  have f2: "Type_Create (GameObject_system 4) ''Object'' (Some 3) None (Some 1) 0
      scenario_registry =
     Inr (None, scenario_registry\<lparr>trace_log := [(TRACE_ERROR, msg_name ''Object'')]\<rparr>) \<and>
     msg_name ''Object'' =
     ''Type::Initialize(): Failed to set type '' @ [CHR 0x22] @ ''Object'' @ [CHR 0x22] @
     '' template object name.'' @ [CHR 0x0A]"
    using C2_Create_failures [where osys = "GameObject_system 4" and tmpl = 1 and pkg = 3
        and s = scenario_registry and c = "CHR ''O''" and cs = "''bject''" and par = None
        and fl = 0 and n = "''Object''"]
      scenario_SetOwner scenario_SetName
    by (simp add: Let_def quoted_def scenario_registry_def split: prod.splits)
  have f3: "Type_Create (GameObject_system 4) ''Object'' (Some 3) None (Some 0) 0
      scenario_registry =
     Inr (None, scenario_registry\<lparr>trace_log := [(TRACE_ERROR, msg_register ''Object'')]\<rparr>)"
    using C2_Create_failures [where osys = "GameObject_system 4" and tmpl = 0 and pkg = 3
        and s = scenario_registry and c = "CHR ''O''" and cs = "''bject''" and par = None
        and fl = 0 and n = "''Object''"]
      register_failure_steps
    by (simp add: Let_def scenario_registry_def split: prod.splits)
  have f4: "Type_Create (GameObject_system 4) ''Object'' (Some 3) None (Some 0) 7
      scenario_start =
     Inr (Some 0,
          scenario_start
            \<lparr>objs := \<lparr>gobjects = (gobjects three_templates)
                        [0 := \<lparr>go_name = ''Object'', go_owner = Some 3, go_flags = 4\<rparr>],
                      registered = [0, 3]\<rparr>,
             type_objects :=
               [\<lparr>m_name = ''Object'', m_spTypeParent = None, m_spTypeTemplate = Some 0,
                 m_typeFlags = 7\<rparr>],
             sm_pLookupMap := Some [''Object'' \<mapsto> Some 0]\<rparr>)"
    using C2_Create_failures [where osys = "GameObject_system 4" and tmpl = 0 and pkg = 3
        and s = scenario_start and c = "CHR ''O''" and cs = "''bject''" and par = None
        and fl = 7 and n = "''Object''"]
      success_steps
    by (simp add: Let_def scenario_start_def registry_init_def split: prod.splits)
  from f1 f2 f3 f4 show ?thesis by blast
qed

text \<open>
  C3. When \<^verbatim>\<open>Type::Create\<close> returns null, the lookup map is the one before the
  call (still absent if it was absent), the heap of descriptors is unchanged, so
  that no descriptor was constructed, and \<^verbatim>\<open>Find\<close> returns for every name what it
  returned before.
\<close>

theorem C3_Create_failure_frame:
  assumes "Type_Create osys n pTypePackage pParent pTemplate fl s = Inr (None, s')"
  shows "sm_pLookupMap s' = sm_pLookupMap s \<and> type_objects s' = type_objects s \<and>
         (\<forall>m. Type_Find m s' = Type_Find m s) \<and> lookup s' n = lookup s n"
proof -
  note F = Create_None_frame [OF assms]
  then have "\<forall>m. lookup s' m = lookup s m" by (simp add: lookup_def)
  then show ?thesis using F by (simp add: Find_lookup)
qed

theorem C3_Create_failure_frame_witness:
  "Type_Create (GameObject_system 4) ''Object'' (Some 3) None (Some 1) 0 scenario_registry =
     Inr (None, scenario_registry\<lparr>trace_log := [(TRACE_ERROR, msg_name ''Object'')]\<rparr>) \<and>
   Type_Find ''Object''
     (scenario_registry\<lparr>trace_log := [(TRACE_ERROR, msg_name ''Object'')]\<rparr>) =
     Type_Find ''Object'' scenario_registry \<and>
   Type_Find ''Object'' scenario_registry = Inr (Some 0)"
  using C3_Create_failure_frame [OF duplicate_Create_returns_null] duplicate_Create_returns_null
  by (simp add: Type_Find_def scenario_registry_def)

subsection \<open>Looking a type up\<close>

text \<open>
  C4. After \<^verbatim>\<open>Create\<close> has returned a descriptor for the name \<open>n\<close>, \<^verbatim>\<open>Find\<close>
  returns that descriptor for \<open>n\<close>, at once and after any further sequence of
  \<^verbatim>\<open>Create\<close>, \<^verbatim>\<open>Unregister\<close> and \<^verbatim>\<open>Find\<close> calls that faults nowhere and in which
  no \<^verbatim>\<open>Unregister\<close> removes the entry of \<open>n\<close>. For a name without an entry
  \<^verbatim>\<open>Find\<close> returns null: when the map has not been created, when it has been
  populated, on a registry never used, and after \<^verbatim>\<open>Shutdown\<close>.
\<close>

theorem C4_Find:
  "(Type_Create osys n pkg par tmpl fl s = Inr (Some p, s1) \<and>
    run_registry_ops osys ops s1 = Inr (s2, removed) \<and> n \<notin> set removed \<longrightarrow>
      Type_Find n s1 = Inr (Some p) \<and> Type_Find n s2 = Inr (Some p)) \<and>
   (lookup s m = None \<longrightarrow> Type_Find m s = Inr None) \<and>
   Type_Find m (registry_init ob) = Inr None \<and>
   (Type_Shutdown s = Inr s3 \<longrightarrow> Type_Find m s3 = Inr None)"
proof (intro conjI impI)
  assume a: "Type_Create osys n pkg par tmpl fl s = Inr (Some p, s1) \<and>
    run_registry_ops osys ops s1 = Inr (s2, removed) \<and> n \<notin> set removed"
  then have l1: "lookup s1 n = Some (Some p)" using Create_Some_lookup by blast
  then show "Type_Find n s1 = Inr (Some p)" by (simp add: Find_lookup)
  from a l1 have "lookup s2 n = Some (Some p)" using run_keeps_entry by blast
  then show "Type_Find n s2 = Inr (Some p)" by (simp add: Find_lookup)
next
  assume "lookup s m = None"
  then show "Type_Find m s = Inr None" by (simp add: Find_lookup)
next
  show "Type_Find m (registry_init ob) = Inr None"
    by (simp add: Type_Find_def registry_init_def)
next
  assume "Type_Shutdown s = Inr s3"
  from Shutdown_results [OF this] show "Type_Find m s3 = Inr None"
    by (simp add: Type_Find_def)
qed

theorem C4_Find_witness:
  "\<exists>s1 s2 s3.
     Type_Create (GameObject_system 4) ''Object'' (Some 3) None (Some 0) 0 scenario_start =
       Inr (Some 0, s1) \<and>
     run_registry_ops (GameObject_system 4)
       [OpCreate ''Actor'' (Some 3) (Some 0) (Some 1) 0,
        OpCreate ''Player'' (Some 3) (Some 1) (Some 2) 0,
        OpFind ''Missing'',
        OpUnregister (Some 2)] s1 = Inr (s2, [''Player'']) \<and>
     Type_Find ''Object'' s2 = Inr (Some 0) \<and>
     lookup s2 ''Player'' = None \<and> Type_Find ''Player'' s2 = Inr None \<and>
     Type_Shutdown s2 = Inr s3 \<and> Type_Find ''Object'' s3 = Inr None"
proof -
  obtain s1 where c: "Type_Create (GameObject_system 4) ''Object'' (Some 3) None (Some 0) 0
      scenario_start = Inr (Some 0, s1)"
    by (simp add: Type_Create_def gsys_defs scenario_start_def registry_init_def
        three_templates_def LookupMap_Insert_def Let_def)
  have "run_registry_ops (GameObject_system 4)
      [OpCreate ''Object'' (Some 3) None (Some 0) 0,
       OpCreate ''Actor'' (Some 3) (Some 0) (Some 1) 0,
       OpCreate ''Player'' (Some 3) (Some 1) (Some 2) 0] scenario_start =
     Inr (scenario_registry\<lparr>GameObject_sm_spStaticType := None\<rparr>, [])"
    by (rule scenario_run)
  with c have r3: "run_registry_ops (GameObject_system 4)
      [OpCreate ''Actor'' (Some 3) (Some 0) (Some 1) 0,
       OpCreate ''Player'' (Some 3) (Some 1) (Some 2) 0] s1 =
     Inr (scenario_registry\<lparr>GameObject_sm_spStaticType := None\<rparr>, [])"
    by simp
  obtain s2 where u: "Type_Unregister (Some 2)
      (scenario_registry\<lparr>GameObject_sm_spStaticType := None\<rparr>) = Inr s2"
    and l: "lookup s2 ''Player'' = None"
    by (simp add: Type_Unregister_def scenario_registry_def scenario_heap_def deref_def
        LookupMap_Remove_def lookup_def Let_def)
  have r: "run_registry_ops (GameObject_system 4)
       [OpCreate ''Actor'' (Some 3) (Some 0) (Some 1) 0,
        OpCreate ''Player'' (Some 3) (Some 1) (Some 2) 0,
        OpFind ''Missing'',
        OpUnregister (Some 2)] s1 = Inr (s2, [''Player''])"
  proof -
    have f: "Type_Find ''Missing'' (scenario_registry\<lparr>GameObject_sm_spStaticType := None\<rparr>)
      = Inr None"
      by (simp add: Type_Find_def scenario_registry_def)
    have d: "deref (type_objects (scenario_registry\<lparr>GameObject_sm_spStaticType := None\<rparr>)) 2 =
      Some \<lparr>m_name = ''Player'', m_spTypeParent = Some 1, m_spTypeTemplate = Some 2,
             m_typeFlags = 0\<rparr>"
      by (simp add: scenario_registry_def scenario_heap_def deref_def)
    have tail: "run_registry_ops (GameObject_system 4) [OpFind ''Missing'', OpUnregister (Some 2)]
       (scenario_registry\<lparr>GameObject_sm_spStaticType := None\<rparr>) = Inr (s2, [''Player''])"
      using f u d by simp
    have app: "run_registry_ops osys xs a = Inr (b, []) \<Longrightarrow>
       run_registry_ops osys (xs @ ys) a = run_registry_ops osys ys b" for osys xs ys
       and a b :: "gobj_store registry"
      by (induction osys xs a rule: run_registry_ops.induct)
        (auto split: sum.splits prod.splits option.splits)
    from app [OF r3, of "[OpFind ''Missing'', OpUnregister (Some 2)]"] tail
    show ?thesis by simp
  qed
  obtain s3 where sh: "Type_Shutdown s2 = Inr s3"
    using u
    by (auto simp: Type_Shutdown_def GameObject_ReleaseStaticType_def HELIUM_TRACE_def
        Type_Unregister_def Let_def LookupMap_Remove_def split: option.splits if_splits)
  have ni: "''Object'' \<notin> set [''Player'']" by simp
  from C4_Find [where osys = "GameObject_system 4" and n = "''Object''" and s = scenario_start
      and ?s1.0 = s1 and ?s2.0 = s2 and removed = "[''Player'']" and p = 0
      and pkg = "Some 3" and par = None and tmpl = "Some 0" and fl = 0
      and ops = "[OpCreate ''Actor'' (Some 3) (Some 0) (Some 1) 0,
        OpCreate ''Player'' (Some 3) (Some 1) (Some 2) 0,
        OpFind ''Missing'',
        OpUnregister (Some 2)]"
      and m = "''Missing''" and ob = three_templates and ?s3.0 = s3] c r ni
  have f1: "Type_Find ''Object'' s2 = Inr (Some 0)" by blast
  from C4_Find [where s = s2 and m = "''Player''" and osys = "GameObject_system 4"
      and n = "''Object''" and ?s1.0 = s1 and ?s2.0 = s2 and removed = "[]" and p = 0
      and pkg = None and par = None and tmpl = None and fl = 0 and ops = "[]"
      and ob = three_templates and ?s3.0 = s3] l
  have f2: "Type_Find ''Player'' s2 = Inr None" by blast
  from C4_Find [where s = s2 and m = "''Object''" and osys = "GameObject_system 4"
      and n = "''Object''" and ?s1.0 = s1 and ?s2.0 = s2 and removed = "[]" and p = 0
      and pkg = None and par = None and tmpl = None and fl = 0 and ops = "[]"
      and ob = three_templates and ?s3.0 = s3] sh
  have f3: "Type_Find ''Object'' s3 = Inr None" by blast
  from c r l sh f1 f2 f3 show ?thesis by blast
qed

subsection \<open>Creating a type whose name is registered\<close>

text \<open>
  C7, as the claim states it, fails when a step on the template object fails
  first: in the scenario ``Object'' is registered, and creating it again with the
  template 1 returns null with a trace line, because the object system refuses
  the name that the first template bears; no assertion is reached.
\<close>

theorem C7_duplicate_Create_returns_null:
  "lookup scenario_registry ''Object'' = Some (Some 0) \<and>
   Type_Create (GameObject_system 4) ''Object'' (Some 3) None (Some 1) 0 scenario_registry =
     Inr (None, scenario_registry\<lparr>trace_log := [(TRACE_ERROR, msg_name ''Object'')]\<rparr>)"
proof
  show "lookup scenario_registry ''Object'' = Some (Some 0)"
    by (simp add: lookup_def scenario_registry_def)
  show "Type_Create (GameObject_system 4) ''Object'' (Some 3) None (Some 1) 0 scenario_registry =
     Inr (None, scenario_registry\<lparr>trace_log := [(TRACE_ERROR, msg_name ''Object'')]\<rparr>)"
    by (rule duplicate_Create_returns_null)
qed

text \<open>
  C7, amended. \<^verbatim>\<open>Type::Create\<close> asserts, in this order, that the name is not
  empty, that the package is not null and that the template object is not null.
  Called with a name that has an entry in the registry, it fails the verification
  of the insertion when the three steps on the template object succeed, and
  returns null when one of them fails; in neither case is the entry replaced or
  a second one added, the map and the descriptors staying as they were.
\<close>

theorem C7_Create_assertions:
  "Type_Create osys [] pTypePackage par pTemplate fl s =
     Inl (AssertionFailed ''!name.IsEmpty()'') \<and>
   Type_Create osys (c # cs) None par pTemplate fl s = Inl (AssertionFailed ''pTypePackage'') \<and>
   Type_Create osys (c # cs) (Some pkg) par None fl s = Inl (AssertionFailed ''pTemplate'') \<and>
   (lookup s (c # cs) \<noteq> None \<longrightarrow>
      (let (owned, o1) = SetOwner osys tmpl pkg (objs s);
           (named, o2) = SetName osys tmpl (c # cs) o1;
           (registered, o4) =
             RegisterObject osys tmpl (SetFlags osys tmpl (FLAG_DEFAULT_TEMPLATE osys) o2);
           result = Type_Create osys (c # cs) (Some pkg) par (Some tmpl) fl s
       in if owned \<and> named \<and> registered
          then result = Inl (AssertionFailed ''sm_pLookupMap->Insert'')
          else \<exists>s'. result = Inr (None, s') \<and> sm_pLookupMap s' = sm_pLookupMap s \<and>
                    type_objects s' = type_objects s))"
  by (auto simp: Type_Create_def Let_def HELIUM_TRACE_def LookupMap_Insert_def lookup_def
      split: prod.splits option.splits)

theorem C7_Create_assertions_witness:
  "lookup (scenario_registry\<lparr>objs := three_templates\<rparr>) ''Object'' = Some (Some 0) \<and>
   Type_Create (GameObject_system 4) ''Object'' (Some 3) None (Some 0) 0
     (scenario_registry\<lparr>objs := three_templates\<rparr>) =
     Inl (AssertionFailed ''sm_pLookupMap->Insert'')"
proof -
  have l: "lookup (scenario_registry\<lparr>objs := three_templates\<rparr>) ''Object'' = Some (Some 0)"
    by (simp add: lookup_def scenario_registry_def)
  have steps:
    "SetOwner (GameObject_system 4) 0 3 (objs (scenario_registry\<lparr>objs := three_templates\<rparr>)) =
       (True, three_templates\<lparr>gobjects := (gobjects three_templates)
          [0 := \<lparr>go_name = ''t0'', go_owner = Some 3, go_flags = 0\<rparr>]\<rparr>)"
    "SetName (GameObject_system 4) 0 ''Object''
       (three_templates\<lparr>gobjects := (gobjects three_templates)
          [0 := \<lparr>go_name = ''t0'', go_owner = Some 3, go_flags = 0\<rparr>]\<rparr>) =
       (True, three_templates\<lparr>gobjects := (gobjects three_templates)
          [0 := \<lparr>go_name = ''Object'', go_owner = Some 3, go_flags = 0\<rparr>]\<rparr>)"
    "RegisterObject (GameObject_system 4) 0
       (SetFlags (GameObject_system 4) 0 (FLAG_DEFAULT_TEMPLATE (GameObject_system 4))
         (three_templates\<lparr>gobjects := (gobjects three_templates)
            [0 := \<lparr>go_name = ''Object'', go_owner = Some 3, go_flags = 0\<rparr>]\<rparr>)) =
       (True, \<lparr>gobjects = (gobjects three_templates)
            [0 := \<lparr>go_name = ''Object'', go_owner = Some 3, go_flags = 4\<rparr>],
          registered = [0, 3]\<rparr>)"
    by (simp_all add: gsys_defs three_templates_def)
  from C7_Create_assertions [where osys = "GameObject_system 4" and c = "CHR ''O''"
      and cs = "''bject''" and pkg = 3 and tmpl = 0 and par = None and fl = 0
      and s = "scenario_registry\<lparr>objs := three_templates\<rparr>"
      and pTypePackage = None and pTemplate = None] l steps
  show ?thesis by simp
qed

subsection \<open>Unregistering a type\<close>

text \<open>
  C8. When \<^verbatim>\<open>Type::Unregister\<close> returns, the descriptor passed had an entry under
  its name, that entry is gone and \<^verbatim>\<open>Find\<close> returns null for the name, the entry
  of every other name and what \<^verbatim>\<open>Find\<close> returns for it are unchanged, the
  descriptor's parent and template references are null and its other fields are
  as before, and no other descriptor has changed.
\<close>

theorem C8_Unregister:
  assumes "Type_Unregister (Some p) s = Inr s'"
  shows "\<exists>T. deref (type_objects s) p = Some T \<and>
           lookup s (m_name T) \<noteq> None \<and> lookup s' (m_name T) = None \<and>
           Type_Find (m_name T) s' = Inr None \<and>
           (\<forall>m. m \<noteq> m_name T \<longrightarrow> lookup s' m = lookup s m \<and> Type_Find m s' = Type_Find m s) \<and>
           deref (type_objects s') p =
             Some (T\<lparr>m_spTypeParent := None, m_spTypeTemplate := None\<rparr>) \<and>
           (\<forall>q. q \<noteq> p \<longrightarrow> deref (type_objects s') q = deref (type_objects s) q) \<and>
           objs s' = objs s \<and> sm_spTypePackage s' = sm_spTypePackage s \<and>
           trace_log s' = trace_log s"
proof -
  from Unregister_results [OF assms] obtain T M where
    f: "sm_pLookupMap s = Some M" "deref (type_objects s) p = Some T" "M (m_name T) \<noteq> None"
      "s' = s\<lparr>sm_pLookupMap := Some (M(m_name T := None)),
              type_objects := (type_objects s)
                [p := T\<lparr>m_spTypeParent := None, m_spTypeTemplate := None\<rparr>]\<rparr>"
    by blast
  from f(2) have len: "p < length (type_objects s)" by (simp add: deref_def split: if_splits)
  have l1: "lookup s (m_name T) \<noteq> None" using f by (simp add: lookup_def)
  have l2: "lookup s' (m_name T) = None" using f by (simp add: lookup_def)
  have l3: "\<forall>m. m \<noteq> m_name T \<longrightarrow> lookup s' m = lookup s m" using f by (simp add: lookup_def)
  have d1: "deref (type_objects s') p =
      Some (T\<lparr>m_spTypeParent := None, m_spTypeTemplate := None\<rparr>)"
    using f len by (simp add: deref_def)
  have d2: "\<forall>q. q \<noteq> p \<longrightarrow> deref (type_objects s') q = deref (type_objects s) q"
    using f by (simp add: deref_def)
  have rest: "objs s' = objs s \<and> sm_spTypePackage s' = sm_spTypePackage s \<and>
      trace_log s' = trace_log s" using f by simp
  from l2 l3 have fnd: "Type_Find (m_name T) s' = Inr None \<and>
      (\<forall>m. m \<noteq> m_name T \<longrightarrow> Type_Find m s' = Type_Find m s)"
    by (simp add: Find_lookup)
  from f(2) l1 l2 l3 d1 d2 rest fnd show ?thesis by blast
qed

theorem C8_Unregister_witness:
  "\<exists>s'. Type_Unregister (Some 2) scenario_registry = Inr s' \<and>
     Type_Find ''Player'' scenario_registry = Inr (Some 2) \<and>
     Type_Find ''Player'' s' = Inr None \<and>
     Type_Find ''Actor'' s' = Inr (Some 1) \<and>
     Type_Find ''Object'' s' = Inr (Some 0) \<and>
     deref (type_objects s') 2 =
       Some \<lparr>m_name = ''Player'', m_spTypeParent = None, m_spTypeTemplate = None,
              m_typeFlags = 0\<rparr>"
proof -
  obtain s' where u: "Type_Unregister (Some 2) scenario_registry = Inr s'"
    by (simp add: Type_Unregister_def scenario_registry_def scenario_heap_def deref_def
        LookupMap_Remove_def Let_def)
  have d: "deref (type_objects scenario_registry) 2 =
      Some \<lparr>m_name = ''Player'', m_spTypeParent = Some 1, m_spTypeTemplate = Some 2,
             m_typeFlags = 0\<rparr>"
    by (simp add: scenario_registry_def scenario_heap_def deref_def)
  have f: "Type_Find ''Player'' scenario_registry = Inr (Some 2)"
    "Type_Find ''Actor'' scenario_registry = Inr (Some 1)"
    "Type_Find ''Object'' scenario_registry = Inr (Some 0)"
    by (simp_all add: Type_Find_def scenario_registry_def)
  from C8_Unregister [OF u] d f u show ?thesis by auto
qed

subsection \<open>Shutting the registry down\<close>

lemma ReleaseStaticType_results:
  assumes "GameObject_ReleaseStaticType s = Inr s0"
  shows "GameObject_sm_spStaticType s0 = None \<and> sm_spTypePackage s0 = sm_spTypePackage s \<and>
         trace_log s0 = trace_log s \<and> objs s0 = objs s \<and>
         (case GameObject_sm_spStaticType s of
            None \<Rightarrow> s0 = s
          | Some t \<Rightarrow> \<exists>s'. Type_Unregister (Some t) s = Inr s' \<and>
                           s0 = s'\<lparr>GameObject_sm_spStaticType := None\<rparr>)"
proof (cases "GameObject_sm_spStaticType s")
  case None
  with assms show ?thesis by (simp add: GameObject_ReleaseStaticType_def)
next
  case (Some t)
  with assms obtain s' where u: "Type_Unregister (Some t) s = Inr s'"
    and e: "s0 = s'\<lparr>GameObject_sm_spStaticType := None\<rparr>"
    by (auto simp: GameObject_ReleaseStaticType_def split: sum.splits)
  from Unregister_results [OF u] e Some u show ?thesis by auto
qed

text \<open>
  C9. When \<^verbatim>\<open>Type::Shutdown\<close> returns, its result is that of the three steps in the
  order of the code: the static type of \<^verbatim>\<open>GameObject\<close> is released on the state in
  which the lookup map still exists, then the map is destroyed, then the
  reference to the type package is released. The order shows: a registered root
  type has lost its entry and its parent and template references, and releasing
  it after the destruction of the map would have failed an assertion. Afterwards
  the map, the package reference and the static type are null, and a second
  \<^verbatim>\<open>Shutdown\<close> returns and changes nothing but the trace, to which it adds its two
  lines again.
\<close>

theorem C9_Shutdown:
  assumes "Type_Shutdown s = Inr s1"
  shows "(\<exists>s0. GameObject_ReleaseStaticType (HELIUM_TRACE TRACE_INFO msg_shutdown_begin s) = Inr s0 \<and>
            s1 = HELIUM_TRACE TRACE_INFO msg_shutdown_end
                   (release_TypePackage (delete_LookupMap s0))) \<and>
         (\<forall>t. GameObject_sm_spStaticType s = Some t \<longrightarrow>
            (\<exists>T. deref (type_objects s) t = Some T \<and> lookup s (m_name T) \<noteq> None \<and>
                 deref (type_objects s1) t =
                   Some (T\<lparr>m_spTypeParent := None, m_spTypeTemplate := None\<rparr>)) \<and>
            GameObject_ReleaseStaticType (delete_LookupMap s) =
              Inl (AssertionFailed ''sm_pLookupMap'')) \<and>
         sm_pLookupMap s1 = None \<and> sm_spTypePackage s1 = None \<and>
         GameObject_sm_spStaticType s1 = None \<and>
         Type_Shutdown s1 =
           Inr (s1\<lparr>trace_log := trace_log s1 @
                  [(TRACE_INFO, msg_shutdown_begin), (TRACE_INFO, msg_shutdown_end)]\<rparr>)"
proof -
  let ?b = "HELIUM_TRACE TRACE_INFO msg_shutdown_begin s"
  from assms obtain s0 where r: "GameObject_ReleaseStaticType ?b = Inr s0"
    and e: "s1 = HELIUM_TRACE TRACE_INFO msg_shutdown_end
                   (release_TypePackage (delete_LookupMap s0))"
    by (auto simp: Type_Shutdown_def split: sum.splits)
  note R = ReleaseStaticType_results [OF r]
  have fields: "sm_pLookupMap s1 = None \<and> sm_spTypePackage s1 = None \<and>
         GameObject_sm_spStaticType s1 = None"
    using e R by (simp add: HELIUM_TRACE_def release_TypePackage_def delete_LookupMap_def)
  have again: "Type_Shutdown s1 =
           Inr (s1\<lparr>trace_log := trace_log s1 @
                  [(TRACE_INFO, msg_shutdown_begin), (TRACE_INFO, msg_shutdown_end)]\<rparr>)"
    using fields
    by (simp add: Type_Shutdown_def GameObject_ReleaseStaticType_def HELIUM_TRACE_def
        release_TypePackage_def delete_LookupMap_def)
  have root: "\<forall>t. GameObject_sm_spStaticType s = Some t \<longrightarrow>
            (\<exists>T. deref (type_objects s) t = Some T \<and> lookup s (m_name T) \<noteq> None \<and>
                 deref (type_objects s1) t =
                   Some (T\<lparr>m_spTypeParent := None, m_spTypeTemplate := None\<rparr>)) \<and>
            GameObject_ReleaseStaticType (delete_LookupMap s) =
              Inl (AssertionFailed ''sm_pLookupMap'')"
  proof (intro allI impI)
    fix t assume t: "GameObject_sm_spStaticType s = Some t"
    then have "GameObject_sm_spStaticType ?b = Some t" by (simp add: HELIUM_TRACE_def)
    with R obtain s' where u: "Type_Unregister (Some t) ?b = Inr s'"
      and e0: "s0 = s'\<lparr>GameObject_sm_spStaticType := None\<rparr>" by auto
    from Unregister_results [OF u] obtain T M where
      f: "sm_pLookupMap ?b = Some M" "deref (type_objects ?b) t = Some T"
        "M (m_name T) \<noteq> None"
        "s' = ?b\<lparr>sm_pLookupMap := Some (M(m_name T := None)),
                type_objects := (type_objects ?b)
                  [t := T\<lparr>m_spTypeParent := None, m_spTypeTemplate := None\<rparr>]\<rparr>"
      by blast
    from f(2) have d: "deref (type_objects s) t = Some T" by (simp add: HELIUM_TRACE_def)
    then have len: "t < length (type_objects s)" by (simp add: deref_def split: if_splits)
    from f(1,3) have l: "lookup s (m_name T) \<noteq> None" by (simp add: lookup_def HELIUM_TRACE_def)
    have d1: "deref (type_objects s1) t =
        Some (T\<lparr>m_spTypeParent := None, m_spTypeTemplate := None\<rparr>)"
      using e e0 f(4) len
      by (simp add: deref_def HELIUM_TRACE_def release_TypePackage_def delete_LookupMap_def)
    have rev: "GameObject_ReleaseStaticType (delete_LookupMap s) =
        Inl (AssertionFailed ''sm_pLookupMap'')"
      using t by (simp add: GameObject_ReleaseStaticType_def delete_LookupMap_def
          Type_Unregister_def)
    from d l d1 rev show "(\<exists>T. deref (type_objects s) t = Some T \<and> lookup s (m_name T) \<noteq> None \<and>
                 deref (type_objects s1) t =
                   Some (T\<lparr>m_spTypeParent := None, m_spTypeTemplate := None\<rparr>)) \<and>
            GameObject_ReleaseStaticType (delete_LookupMap s) =
              Inl (AssertionFailed ''sm_pLookupMap'')" by blast
  qed
  from r e have first: "\<exists>s0. GameObject_ReleaseStaticType
        (HELIUM_TRACE TRACE_INFO msg_shutdown_begin s) = Inr s0 \<and>
      s1 = HELIUM_TRACE TRACE_INFO msg_shutdown_end
             (release_TypePackage (delete_LookupMap s0))" by blast
  from fields have f1: "sm_pLookupMap s1 = None" and f2: "sm_spTypePackage s1 = None"
    and f3: "GameObject_sm_spStaticType s1 = None" by simp_all
  show ?thesis
    by (intro conjI, rule first, rule root, rule f1, rule f2, rule f3, rule again)
qed

theorem C9_Shutdown_witness:
  "\<exists>s1. Type_Shutdown scenario_registry = Inr s1 \<and>
     sm_pLookupMap s1 = None \<and> sm_spTypePackage s1 = None \<and>
     deref (type_objects s1) 0 =
       Some \<lparr>m_name = ''Object'', m_spTypeParent = None, m_spTypeTemplate = None,
              m_typeFlags = 0\<rparr> \<and>
     trace_log s1 = [(TRACE_INFO, msg_shutdown_begin), (TRACE_INFO, msg_shutdown_end)] \<and>
     Type_Shutdown s1 =
       Inr (s1\<lparr>trace_log :=
                 [(TRACE_INFO, msg_shutdown_begin), (TRACE_INFO, msg_shutdown_end),
                  (TRACE_INFO, msg_shutdown_begin), (TRACE_INFO, msg_shutdown_end)]\<rparr>)"
proof -
  obtain s1 where sh: "Type_Shutdown scenario_registry = Inr s1"
    and tl: "trace_log s1 = [(TRACE_INFO, msg_shutdown_begin), (TRACE_INFO, msg_shutdown_end)]"
    by (simp add: Type_Shutdown_def GameObject_ReleaseStaticType_def Type_Unregister_def
        HELIUM_TRACE_def release_TypePackage_def delete_LookupMap_def LookupMap_Remove_def
        scenario_registry_def scenario_heap_def deref_def Let_def)
  have st: "GameObject_sm_spStaticType scenario_registry = Some 0"
    and d: "deref (type_objects scenario_registry) 0 =
      Some \<lparr>m_name = ''Object'', m_spTypeParent = None, m_spTypeTemplate = Some 0,
             m_typeFlags = 0\<rparr>"
    by (simp_all add: scenario_registry_def scenario_heap_def deref_def)
  from C9_Shutdown [OF sh] sh tl st d show ?thesis by auto
qed

subsection \<open>The template object after a failed creation\<close>

lemma rename_failure_example:
  "Type_Create (GameObject_system 4) ''Object'' (Some 3) None (Some 1) 0
     (registry_init (three_templates\<lparr>gobjects := (gobjects three_templates)
        [2 := \<lparr>go_name = ''Object'', go_owner = Some 3, go_flags = 0\<rparr>],
        registered := [2, 3]\<rparr>)) =
   Inr (None,
     (registry_init (three_templates\<lparr>gobjects := (gobjects three_templates)
        [2 := \<lparr>go_name = ''Object'', go_owner = Some 3, go_flags = 0\<rparr>,
         1 := \<lparr>go_name = ''t1'', go_owner = Some 3, go_flags = 0\<rparr>],
        registered := [2, 3]\<rparr>))\<lparr>trace_log := [(TRACE_ERROR, msg_name ''Object'')]\<rparr>)"
  by (simp add: Type_Create_def gsys_defs three_templates_def registry_init_def
      HELIUM_TRACE_def Let_def)

lemma register_failure_example:
  "Type_Create (GameObject_system 4) ''Actor'' (Some 3) None (Some 1) 0
     (registry_init (three_templates\<lparr>registered := [1, 3]\<rparr>)) =
   Inr (None,
     (registry_init (three_templates\<lparr>gobjects := (gobjects three_templates)
        [1 := \<lparr>go_name = ''Actor'', go_owner = Some 3, go_flags = 4\<rparr>],
        registered := [1, 3]\<rparr>))\<lparr>trace_log := [(TRACE_ERROR, msg_register ''Actor'')]\<rparr>)"
  by (simp add: Type_Create_def gsys_defs three_templates_def registry_init_def
      HELIUM_TRACE_def Let_def)

text \<open>
  C10. When renaming fails after re-owning has succeeded, \<^verbatim>\<open>Type::Create\<close> returns
  null and leaves the object system in the state that \<^verbatim>\<open>SetOwner\<close> followed by
  \<^verbatim>\<open>SetName\<close> produced; when registration fails, in the state that \<^verbatim>\<open>SetOwner\<close>,
  \<^verbatim>\<open>SetName\<close>, \<^verbatim>\<open>SetFlags\<close> and \<^verbatim>\<open>RegisterObject\<close> produced, one after the other.
  Nothing is undone, while the lookup map and the descriptors are untouched. In
  the object system of this theory there are calls that return null and have
  changed the template: one that has set its owner, one that has set its owner,
  name and default-template flag.
\<close>

theorem C10_no_rollback:
  "(let (owned, o1) = SetOwner osys tmpl pkg (objs s);
        (named, o2) = SetName osys tmpl (c # cs) o1;
        o3 = SetFlags osys tmpl (FLAG_DEFAULT_TEMPLATE osys) o2;
        (registered, o4) = RegisterObject osys tmpl o3;
        result = Type_Create osys (c # cs) (Some pkg) par (Some tmpl) fl s
    in (owned \<and> \<not> named \<longrightarrow>
          (\<exists>s'. result = Inr (None, s') \<and> objs s' = o2 \<and>
                sm_pLookupMap s' = sm_pLookupMap s \<and> type_objects s' = type_objects s)) \<and>
       (owned \<and> named \<and> \<not> registered \<longrightarrow>
          (\<exists>s'. result = Inr (None, s') \<and> objs s' = o4 \<and>
                sm_pLookupMap s' = sm_pLookupMap s \<and> type_objects s' = type_objects s))) \<and>
   (\<exists>s s'. Type_Create (GameObject_system 4) ''Object'' (Some 3) None (Some 1) 0 s =
              Inr (None, s') \<and>
            gobjects (objs s) ! 1 = \<lparr>go_name = ''t1'', go_owner = None, go_flags = 0\<rparr> \<and>
            gobjects (objs s') ! 1 = \<lparr>go_name = ''t1'', go_owner = Some 3, go_flags = 0\<rparr>) \<and>
   (\<exists>s s'. Type_Create (GameObject_system 4) ''Actor'' (Some 3) None (Some 1) 0 s =
              Inr (None, s') \<and>
            gobjects (objs s) ! 1 = \<lparr>go_name = ''t1'', go_owner = None, go_flags = 0\<rparr> \<and>
            gobjects (objs s') ! 1 = \<lparr>go_name = ''Actor'', go_owner = Some 3, go_flags = 4\<rparr>)"
proof (intro conjI)
  show "let (owned, o1) = SetOwner osys tmpl pkg (objs s);
        (named, o2) = SetName osys tmpl (c # cs) o1;
        o3 = SetFlags osys tmpl (FLAG_DEFAULT_TEMPLATE osys) o2;
        (registered, o4) = RegisterObject osys tmpl o3;
        result = Type_Create osys (c # cs) (Some pkg) par (Some tmpl) fl s
    in (owned \<and> \<not> named \<longrightarrow>
          (\<exists>s'. result = Inr (None, s') \<and> objs s' = o2 \<and>
                sm_pLookupMap s' = sm_pLookupMap s \<and> type_objects s' = type_objects s)) \<and>
       (owned \<and> named \<and> \<not> registered \<longrightarrow>
          (\<exists>s'. result = Inr (None, s') \<and> objs s' = o4 \<and>
                sm_pLookupMap s' = sm_pLookupMap s \<and> type_objects s' = type_objects s))"
    by (auto simp: Type_Create_def Let_def HELIUM_TRACE_def split: prod.splits)
next
  show "\<exists>s s'. Type_Create (GameObject_system 4) ''Object'' (Some 3) None (Some 1) 0 s =
              Inr (None, s') \<and>
            gobjects (objs s) ! 1 = \<lparr>go_name = ''t1'', go_owner = None, go_flags = 0\<rparr> \<and>
            gobjects (objs s') ! 1 = \<lparr>go_name = ''t1'', go_owner = Some 3, go_flags = 0\<rparr>"
    by (intro exI conjI, rule rename_failure_example)
      (simp_all add: registry_init_def three_templates_def)
next
  show "\<exists>s s'. Type_Create (GameObject_system 4) ''Actor'' (Some 3) None (Some 1) 0 s =
              Inr (None, s') \<and>
            gobjects (objs s) ! 1 = \<lparr>go_name = ''t1'', go_owner = None, go_flags = 0\<rparr> \<and>
            gobjects (objs s') ! 1 = \<lparr>go_name = ''Actor'', go_owner = Some 3, go_flags = 4\<rparr>"
    by (intro exI conjI, rule register_failure_example)
      (simp_all add: registry_init_def three_templates_def)
qed

theorem C10_no_rollback_witness:
  "\<exists>s'. Type_Create (GameObject_system 4) ''Actor'' (Some 3) None (Some 1) 0
           (registry_init (three_templates\<lparr>registered := [1, 3]\<rparr>)) = Inr (None, s') \<and>
         objs s' = three_templates\<lparr>gobjects := (gobjects three_templates)
           [1 := \<lparr>go_name = ''Actor'', go_owner = Some 3, go_flags = 4\<rparr>],
           registered := [1, 3]\<rparr> \<and>
         sm_pLookupMap s' = None \<and> type_objects s' = []"
proof -
  have steps:
    "SetOwner (GameObject_system 4) 1 3
       (objs (registry_init (three_templates\<lparr>registered := [1, 3]\<rparr>))) =
       (True, three_templates\<lparr>gobjects := (gobjects three_templates)
          [1 := \<lparr>go_name = ''t1'', go_owner = Some 3, go_flags = 0\<rparr>],
          registered := [1, 3]\<rparr>)"
    "SetName (GameObject_system 4) 1 ''Actor''
       (three_templates\<lparr>gobjects := (gobjects three_templates)
          [1 := \<lparr>go_name = ''t1'', go_owner = Some 3, go_flags = 0\<rparr>],
          registered := [1, 3]\<rparr>) =
       (True, three_templates\<lparr>gobjects := (gobjects three_templates)
          [1 := \<lparr>go_name = ''Actor'', go_owner = Some 3, go_flags = 0\<rparr>],
          registered := [1, 3]\<rparr>)"
    "RegisterObject (GameObject_system 4) 1
       (SetFlags (GameObject_system 4) 1 (FLAG_DEFAULT_TEMPLATE (GameObject_system 4))
         (three_templates\<lparr>gobjects := (gobjects three_templates)
            [1 := \<lparr>go_name = ''Actor'', go_owner = Some 3, go_flags = 0\<rparr>],
            registered := [1, 3]\<rparr>)) =
       (False, three_templates\<lparr>gobjects := (gobjects three_templates)
          [1 := \<lparr>go_name = ''Actor'', go_owner = Some 3, go_flags = 4\<rparr>],
          registered := [1, 3]\<rparr>)"
    by (simp_all add: gsys_defs three_templates_def registry_init_def)
  from C10_no_rollback [where osys = "GameObject_system 4" and tmpl = 1 and pkg = 3
      and c = "CHR ''A''" and cs = "''ctor''" and par = None and fl = 0
      and s = "registry_init (three_templates\<lparr>registered := [1, 3]\<rparr>)", THEN conjunct1]
    steps
  show ?thesis by (simp add: Let_def registry_init_def)
qed

end
